theory Spec2Isabelle
  imports Main "HOL-Library.Word" "HOL-Library.FSet"
begin

section \<open>JavaScript strings\<close>

text \<open>
  A JavaScript string is a sequence of 16-bit UTF-16 code units. ASCII literals of the
  scripts are written with \<open>lit\<close>; the Cyrillic and emoji literals are given by their
  code units (constants \<open>s_...\<close>), with their meaning in the comment beside them.
\<close>

type_synonym jschar = "16 word"
type_synonym jsstring = "jschar list"

definition lit :: "string \<Rightarrow> jsstring" where
  "lit s = map (\<lambda>c. of_nat (of_char c)) s"

text \<open>
  \<open>String.prototype.replace\<close> with a global pattern that matches single code units:
  the scan goes left to right, every matching unit is replaced by what the replacer gives
  for it (\<open>Some r\<close>), every other unit is copied.
\<close>

fun replaceEach :: "(jschar \<Rightarrow> jsstring option) \<Rightarrow> jsstring \<Rightarrow> jsstring" where
  "replaceEach f [] = []"
| "replaceEach f (c # cs) = (case f c of Some r \<Rightarrow> r | None \<Rightarrow> [c]) @ replaceEach f cs"

text \<open>\<open>WhiteSpace\<close> and \<open>LineTerminator\<close> of ECMAScript: what \<open>trim\<close> strips and \<open>\s\<close> matches.\<close>

definition isWhiteSpace :: "jschar \<Rightarrow> bool" where
  "isWhiteSpace c =
     (c = 0x09 \<or> c = 0x0A \<or> c = 0x0B \<or> c = 0x0C \<or> c = 0x0D \<or> c = 0x20 \<or> c = 0xA0
      \<or> c = 0x1680 \<or> (0x2000 \<le> c \<and> c \<le> 0x200A) \<or> c = 0x2028 \<or> c = 0x2029
      \<or> c = 0x202F \<or> c = 0x205F \<or> c = 0x3000 \<or> c = 0xFEFF)"

definition trim :: "jsstring \<Rightarrow> jsstring" where
  "trim s = rev (dropWhile isWhiteSpace (rev (dropWhile isWhiteSpace s)))"

text \<open>
  \<open>toLowerCase\<close> and \<open>toUpperCase\<close> map a string of ASCII units letter by letter. On a
  string with a unit outside ASCII the result is given by the Unicode case tables, which
  are not part of the sources: they are the parameters \<open>lowerTable\<close> and \<open>upperTable\<close>.
\<close>

definition isAscii :: "jschar \<Rightarrow> bool" where
  "isAscii c = (c \<le> 0x7F)"

definition asciiLower :: "jschar \<Rightarrow> jschar" where
  "asciiLower c = (if 0x41 \<le> c \<and> c \<le> 0x5A then c + 0x20 else c)"


definition toLowerCase :: "(jsstring \<Rightarrow> jsstring) \<Rightarrow> jsstring \<Rightarrow> jsstring" where
  "toLowerCase lowerTable s = (if list_all isAscii s then map asciiLower s else lowerTable s)"


text \<open>\<open>haystack.includes(needle)\<close>, also the test of a CSS selector \<open>[attr*="needle"]\<close>.\<close>

fun isPrefix :: "jsstring \<Rightarrow> jsstring \<Rightarrow> bool" where
  "isPrefix [] s = True"
| "isPrefix (p # ps) [] = False"
| "isPrefix (p # ps) (c # cs) = (p = c \<and> isPrefix ps cs)"

fun includesStr :: "jsstring \<Rightarrow> jsstring \<Rightarrow> bool" where
  "includesStr needle [] = (needle = [])"
| "includesStr needle (c # cs) = (isPrefix needle (c # cs) \<or> includesStr needle cs)"

text \<open>The decimal text of a non-negative integer (\<open>String(n)\<close>, template literals).\<close>

fun digits :: "nat \<Rightarrow> nat \<Rightarrow> jsstring" where
  "digits 0 n = []"
| "digits (Suc fuel) n =
     (if n < 10 then [of_nat (48 + n)]
      else digits fuel (n div 10) @ [of_nat (48 + n mod 10)])"

definition showNat :: "nat \<Rightarrow> jsstring" where
  "showNat n = digits (Suc n) n"

text \<open>The units \<open>0\<close> to \<open>9\<close>, of which a decimal text consists.\<close>

definition isDigit :: "jschar \<Rightarrow> bool" where
  "isDigit c = (0x30 \<le> c \<and> c \<le> 0x39)"

section \<open>Utility functions (utils.js): pure helpers\<close>

text \<open>
  \<open>escapeHtml\<close>: the object \<open>map\<close> with its five keys, and
  \<open>text.replace(/[&<>"']/g, m => map[m])\<close>. A key the object lacks would give
  \<open>undefined\<close>, which \<open>replace\<close> writes as the text \<open>undefined\<close>.
\<close>

definition escape_map :: "(jschar \<times> jsstring) list" where
  "escape_map =
     [(0x26, lit ''&amp;''), (0x3C, lit ''&lt;''), (0x3E, lit ''&gt;''),
      (0x22, lit ''&quot;''), (0x27, lit ''&#039;'')]"

definition escape_class :: "jschar \<Rightarrow> bool" where
  "escape_class c = (c = 0x26 \<or> c = 0x3C \<or> c = 0x3E \<or> c = 0x22 \<or> c = 0x27)"

definition escapeHtml :: "jsstring \<Rightarrow> jsstring" where
  "escapeHtml text =
     replaceEach (\<lambda>m. if escape_class m
                       then Some (case map_of escape_map m of Some r \<Rightarrow> r | None \<Rightarrow> lit ''undefined'')
                       else None) text"

text \<open>\<open>isValidClientName\<close>: \<open>/^[a-zA-Z0-9_-]+$/.test(name)\<close>, one or more units of the class
  and nothing else (without the \<open>m\<close> flag \<open>^\<close> and \<open>$\<close> are the two ends of the input).\<close>

definition nameChar :: "jschar \<Rightarrow> bool" where
  "nameChar c =
     ((0x61 \<le> c \<and> c \<le> 0x7A) \<or> (0x41 \<le> c \<and> c \<le> 0x5A) \<or> (0x30 \<le> c \<and> c \<le> 0x39)
      \<or> c = 0x5F \<or> c = 0x2D)"

definition isValidClientName :: "jsstring \<Rightarrow> bool" where
  "isValidClientName name = (name \<noteq> [] \<and> list_all nameChar name)"

text \<open>
  \<open>isValidEmail\<close>: \<open>/^[^\s@]+@[^\s@]+\.[^\s@]+$/.test(email)\<close>. The class \<open>[^\s@]\<close> admits
  the dot, so the input matches when it has no white space, exactly one \<open>@\<close> with a
  non-empty part before it, and after it a dot that is neither the first nor the last unit.
\<close>

definition emailChar :: "jschar \<Rightarrow> bool" where
  "emailChar c = (\<not> isWhiteSpace c \<and> c \<noteq> 0x40)"

definition isValidEmail :: "jsstring \<Rightarrow> bool" where
  "isValidEmail email =
     (let local = takeWhile emailChar email;
          rest = dropWhile emailChar email
      in local \<noteq> [] \<and> rest \<noteq> [] \<and> hd rest = 0x40 \<and> list_all emailChar (tl rest)
         \<and> list_ex (\<lambda>i. tl rest ! i = 0x2E) [1 ..< length (tl rest) - 1])"

section \<open>The page, the server's answers and what a script does\<close>

text \<open>
  The scripts act on the page and on the network. The model makes this explicit: every
  function takes the state of the page (\<open>world\<close>) and returns the new one. What leaves
  the page (console lines, status writes, alerts, requests, reload timers, downloads) is
  appended to \<open>trace\<close>, in the order of the source. The answers of the user to
  \<open>confirm\<close> and \<open>prompt\<close> and the outcome of \<open>fetch\<close> are ordinary parameters.
  Not modelled: the text of the dialogs, scrolling, the failure of \<open>response.blob()\<close>
  and of \<open>decodeURIComponent\<close>, answers whose body is a JSON number, string, boolean or
  array (the API answers with objects), and answers whose fields are \<open>null\<close> or of a type
  other than the one the API gives them.
\<close>

datatype jvalue = JString jsstring | JBool bool

text \<open>A request as handed to \<open>fetch\<close>; \<open>body\<close> is the object given to \<open>JSON.stringify\<close>.\<close>

record request =
  url :: jsstring
  http_method :: jsstring
  headers :: "(jsstring \<times> jsstring option) list"
  body :: "(jsstring \<times> jvalue) list option"

text \<open>
  The fields of a parsed body that the scripts read. Every field may be absent (\<open>None\<close>,
  JavaScript's \<open>undefined\<close>); a field that is present has the type the API gives it.
\<close>

record api_data =
  success :: "bool option"
  message :: "jsstring option"
  error :: "jsstring option"
  "output" :: "jsstring option"
  status :: "jsstring option"
  public_key :: "jsstring option"
  key_type :: "jsstring option"
  client_id :: "jsstring option"
  steps :: "jsstring list option"
  service_running :: "bool option"
  clients_on_server :: "nat option"
  clients_in_db :: "nat option"
  clients_removed :: "nat option"
  orphaned_clients :: "jsstring list option"
  new_clients :: "jsstring list option"

text \<open>
  What a body parses to: the JSON text \<open>null\<close> gives \<open>null\<close>, on which every property read
  throws a \<open>TypeError\<close>; an object gives its fields.
\<close>

datatype parsed = JsonNull | JsonObject api_data

text \<open>
  A response: its status code, what \<open>response.json()\<close> resolves to (\<open>None\<close> when the body
  is not JSON and the promise rejects), the \<open>Content-Disposition\<close> header and the size of
  the blob. \<open>fetch\<close> itself rejects when no response arrives.
\<close>

record response =
  http_status :: nat
  json :: "parsed option"
  content_disposition :: "jsstring option"
  blob_size :: nat

datatype outcome = Rejected | Resolved response

definition ok :: "response \<Rightarrow> bool" where
  "ok r = (200 \<le> http_status r \<and> http_status r \<le> 299)"

text \<open>
  Exceptions: \<open>Error m\<close> is \<open>new Error(m)\<close> of the scripts; a \<open>Fault\<close> is thrown by the
  browser (a rejected \<open>fetch\<close>, a body that is not JSON, a method called on
  \<open>undefined\<close>, the read of the named property of \<open>null\<close>), with a message the browser
  chooses.
\<close>

datatype fault = FetchFailed | JsonSyntax | UndefinedProperty | NullProperty jsstring

datatype exn = Error jsstring | Fault fault

definition message_of :: "(fault \<Rightarrow> jsstring) \<Rightarrow> exn \<Rightarrow> jsstring" where
  "message_of faultMessage e = (case e of Error m \<Rightarrow> m | Fault f \<Rightarrow> faultMessage f)"

datatype logarg =
    Str jsstring | Num nat | Data api_data | Exn exn | Strs "jsstring list" | Undefined | Null

datatype event =
    ConsoleLog "logarg list"
  | ConsoleError "logarg list"
  | StatusShown jsstring jsstring
  | Alert jsstring
  | Fetch request
  | Reload nat
  | Download jsstring nat
  | ModalHidden
  | FormReset

record button =
  onclick :: jsstring
  disabled :: bool
  innerHTML :: jsstring

record status_box =
  className :: jsstring
  textContent :: jsstring
  display :: jsstring

text \<open>
  The page. \<open>statusBox\<close> is \<open>None\<close> when \<open>#ssh-status\<close> or \<open>#status-message\<close> is missing,
  \<open>terminal\<close> is \<open>None\<close> when \<open>#terminal-output\<close> is missing and otherwise lists the
  \<open>innerHTML\<close> of the elements appended to it. \<open>buttons\<close> are the \<open>button\<close> elements
  of the document in document order, the button of the create-client modal apart; an
  element is referred to by its position, and the scripts neither add nor remove one. The
  create-client modal (its two inputs and its button) is taken to be on the page. \<open>timers\<close>
  holds the step counter of every interval armed by \<open>reinstallOpenVPN\<close>, \<open>None\<close> once
  cleared. The case tables, \<open>decodeURIComponent\<close>, the browser's fault messages and
  stack traces, and what \<open>querySelectorAll\<close> does with a selector built from a text that
  is not plain (\<open>oddSelector\<close>, \<open>None\<close> for a syntax error) are not in the sources and
  are parameters of the page.
\<close>

record world =
  cookie :: jsstring
  decodeURIComponent :: "jsstring \<Rightarrow> jsstring"
  lowerTable :: "jsstring \<Rightarrow> jsstring"
  upperTable :: "jsstring \<Rightarrow> jsstring"
  faultMessage :: "fault \<Rightarrow> jsstring"
  stackTrace :: "exn \<Rightarrow> jsstring"
  oddSelector :: "jsstring \<Rightarrow> nat list option"
  serverIdAttr :: "jsstring option"
  statusBox :: "status_box option"
  buttons :: "button list"
  terminal :: "jsstring list option"
  isConnected :: bool
  clientNameField :: jsstring
  clientEmailField :: jsstring
  createClientBtn :: button
  timers :: "nat option list"
  trace :: "event list"

definition emit :: "event \<Rightarrow> world \<Rightarrow> world" where
  "emit e w = w\<lparr>trace := trace w @ [e]\<rparr>"

text \<open>Statements in sequence.\<close>

fun seq :: "(world \<Rightarrow> world) list \<Rightarrow> world \<Rightarrow> world" where
  "seq [] w = w"
| "seq (f # fs) w = seq fs (f w)"


definition template :: "jsstring option \<Rightarrow> jsstring" where
  "template v = (case v of None \<Rightarrow> lit ''undefined'' | Some s \<Rightarrow> s)"

text \<open>\<open>v || d\<close> for an optional string \<open>v\<close> and a string \<open>d\<close>.\<close>

definition orElse :: "jsstring option \<Rightarrow> jsstring \<Rightarrow> jsstring" where
  "orElse v d = (case v of None \<Rightarrow> d | Some s \<Rightarrow> if s \<noteq> [] then s else d)"

text \<open>What the setter of \<open>textContent\<close> stores: the empty text for \<open>undefined\<close>.\<close>

definition domText :: "jsstring option \<Rightarrow> jsstring" where
  "domText v = (case v of None \<Rightarrow> [] | Some s \<Rightarrow> s)"

section \<open>Utility functions (utils.js): helpers that act on the page\<close>

definition s_error_title :: jsstring where \<comment> \<open>Error (alert title)\<close>
  "s_error_title =
     [0x41E, 0x448, 0x438, 0x431, 0x43A, 0x430]"

text \<open>\<open>getCookie\<close>: \<open>document.cookie.split(';')\<close>, each part trimmed, the first part that
  starts with \<open>name=\<close> decoded; \<open>null\<close> when there is none or the cookie text is empty.\<close>

fun splitOn :: "jschar \<Rightarrow> jsstring \<Rightarrow> jsstring list" where
  "splitOn sep [] = [[]]"
| "splitOn sep (c # cs) =
     (if c = sep then [] # splitOn sep cs
      else (case splitOn sep cs of [] \<Rightarrow> [[c]] | p # ps \<Rightarrow> (c # p) # ps))"

definition getCookie :: "world \<Rightarrow> jsstring \<Rightarrow> jsstring option" where
  "getCookie w name =
     (if cookie w \<noteq> [] then
        (case filter (\<lambda>c. take (length name + 1) c = name @ lit ''='')
                (map trim (splitOn 0x3B (cookie w))) of
           [] \<Rightarrow> None
         | c # _ \<Rightarrow> Some (decodeURIComponent w (drop (length name + 1) c)))
      else None)"

definition showStatus :: "jsstring \<Rightarrow> jsstring \<Rightarrow> world \<Rightarrow> world" where
  "showStatus msg type w =
     (case statusBox w of
        None \<Rightarrow> w
      | Some _ \<Rightarrow>
          emit (StatusShown msg type)
            (w\<lparr>statusBox := Some \<lparr>className = lit ''alert alert-'' @ type @ lit '' m-3 mb-0'',
                                   textContent = msg, display = lit ''block''\<rparr>\<rparr>))"

text \<open>\<open>showButtonLoading\<close> returns the button's former \<open>innerHTML\<close> and changes the button.\<close>

definition showButtonLoading :: "button \<Rightarrow> jsstring \<Rightarrow> jsstring \<times> button" where
  "showButtonLoading b msg =
     (innerHTML b,
      b\<lparr>disabled := True,
        innerHTML := lit ''<i class=\"fas fa-spinner fa-spin\"></i> '' @ msg\<rparr>)"

definition restoreButton :: "button \<Rightarrow> jsstring \<Rightarrow> button" where
  "restoreButton b originalHTML = b\<lparr>disabled := False, innerHTML := originalHTML\<rparr>"

text \<open>
  \<open>document.querySelectorAll('button[onclick*="f"]')\<close>: the buttons whose \<open>onclick\<close>
  attribute contains \<open>f\<close>. The two \<open>forEach\<close> loops of every action: the first puts the
  buttons in the loading state and keeps their former markup in \<open>originalHTML\<close>, the
  second (in \<open>finally\<close>) restores them.
\<close>

definition selectButtons :: "jsstring \<Rightarrow> world \<Rightarrow> nat list" where
  "selectButtons f w =
     filter (\<lambda>i. includesStr f (onclick (buttons w ! i))) [0 ..< length (buttons w)]"

definition originalsOf :: "nat list \<Rightarrow> jsstring \<Rightarrow> world \<Rightarrow> (nat \<times> jsstring) list" where
  "originalsOf sel msg w = map (\<lambda>i. (i, fst (showButtonLoading (buttons w ! i) msg))) sel"

definition loadingAll :: "nat list \<Rightarrow> jsstring \<Rightarrow> world \<Rightarrow> world" where
  "loadingAll sel msg w =
     w\<lparr>buttons := fold (\<lambda>i bs. bs[i := snd (showButtonLoading (bs ! i) msg)]) sel (buttons w)\<rparr>"

definition restoreAll :: "(nat \<times> jsstring) list \<Rightarrow> world \<Rightarrow> world" where
  "restoreAll originalHTML w =
     w\<lparr>buttons := fold (\<lambda>(i, h) bs. bs[i := restoreButton (bs ! i) h]) originalHTML (buttons w)\<rparr>"

definition showAlert :: "jsstring \<Rightarrow> jsstring \<Rightarrow> world \<Rightarrow> world" where
  "showAlert msg title =
     emit (Alert (if title \<noteq> [] then title @ [0x0A, 0x0A] @ msg else msg))"

definition reloadPage :: "nat \<Rightarrow> world \<Rightarrow> world" where
  "reloadPage delay = emit (Reload delay)"

definition handleApiError :: "exn \<Rightarrow> jsstring \<Rightarrow> world \<Rightarrow> world" where
  "handleApiError e context' w =
     seq [emit (ConsoleError [Str (context' @ lit '' error:''), Exn e]),
          showAlert (context' @ lit '': '' @ message_of (faultMessage w) e) s_error_title] w"

text \<open>
  \<open>apiRequest\<close>. Its callers pass a method and at most a body, so the merged options are
  the two default headers, the method and the body. The call of \<open>fetch\<close> happens at once
  (\<open>apiRequest_send\<close>); what the caller's \<open>await\<close> yields depends on the outcome
  (\<open>apiRequest_result\<close>): the parsed body, or the exception thrown. For a response that
  is not ok, \<open>response.json().catch(() => ({}))\<close> gives the empty object when the body is
  not JSON, and \<open>data.error\<close> is then read from whatever the body parsed to.
\<close>

record api_options =
  opt_method :: jsstring
  opt_body :: "(jsstring \<times> jvalue) list option"

definition apiRequest_send :: "jsstring \<Rightarrow> api_options \<Rightarrow> world \<Rightarrow> world" where
  "apiRequest_send u options w =
     emit (Fetch \<lparr>url = u, http_method = opt_method options,
                  headers = [(lit ''Content-Type'', Some (lit ''application/json'')),
                             (lit ''X-CSRFToken'', getCookie w (lit ''csrftoken''))],
                  body = opt_body options\<rparr>) w"

definition apiRequest_result :: "outcome \<Rightarrow> exn + parsed" where
  "apiRequest_result out =
     (case out of
        Rejected \<Rightarrow> Inl (Fault FetchFailed)
      | Resolved r \<Rightarrow>
          if \<not> ok r then
            (case json r of
               None \<Rightarrow>
                 Inl (Error (lit ''HTTP error! status: '' @ showNat (http_status r)))
             | Some JsonNull \<Rightarrow> Inl (Fault (NullProperty (lit ''error'')))
             | Some (JsonObject d) \<Rightarrow>
                 Inl (Error (orElse (error d)
                               (lit ''HTTP error! status: '' @ showNat (http_status r)))))
          else (case json r of None \<Rightarrow> Inl (Fault JsonSyntax) | Some v \<Rightarrow> Inr v))"

definition apiRequest :: "jsstring \<Rightarrow> api_options \<Rightarrow> outcome \<Rightarrow> world \<Rightarrow> (exn + parsed) \<times> world" where
  "apiRequest u options out w = (apiRequest_result out, apiRequest_send u options w)"

definition downloadBlob :: "nat \<Rightarrow> jsstring \<Rightarrow> world \<Rightarrow> world" where
  "downloadBlob blob filename = emit (Download filename blob)"

section \<open>SSH terminal module: what appendToTerminal writes\<close>

text \<open>
  The markup that \<open>appendToTerminal\<close> assigns to the new element's \<open>innerHTML\<close>:
  \<open>escapeHtml(text).replace(/\n/g, '<br>').replace(/ /g, '&nbsp;')\<close>.
\<close>

definition terminalHtml :: "jsstring \<Rightarrow> jsstring" where
  "terminalHtml text =
     replaceEach (\<lambda>c. if c = 0x20 then Some (lit ''&nbsp;'') else None)
       (replaceEach (\<lambda>c. if c = 0x0A then Some (lit ''<br>'') else None)
          (escapeHtml text))"

text \<open>\<open>appendToTerminal\<close>: nothing without \<open>#terminal-output\<close>, else a new element with
  that markup is appended to it.\<close>

definition appendToTerminal :: "jsstring \<Rightarrow> world \<Rightarrow> world" where
  "appendToTerminal text' w =
     (case terminal w of
        None \<Rightarrow> w
      | Some divs \<Rightarrow> w\<lparr>terminal := Some (divs @ [terminalHtml text'])\<rparr>)"

text \<open>What one unit of the text becomes in the terminal markup.\<close>

definition terminalUnit :: "jschar \<Rightarrow> jsstring" where
  "terminalUnit c =
     (if c = 0x26 then lit ''&amp;'' else if c = 0x3C then lit ''&lt;''
      else if c = 0x3E then lit ''&gt;'' else if c = 0x22 then lit ''&quot;''
      else if c = 0x27 then lit ''&#039;'' else if c = 0x0A then lit ''<br>''
      else if c = 0x20 then lit ''&nbsp;'' else [c])"

section \<open>Server actions module (server-actions.js)\<close>

text \<open>
  The functions of \<open>server-actions.js\<close>, and \<open>reinstallOpenVPN\<close> and \<open>syncClients\<close> of
  its longer copy among the sources. Every action is an \<open>async\<close> function with one
  \<open>await\<close>, of the request it sends. It is modelled in two parts: \<open>f_start\<close> runs from
  the call to the \<open>await\<close> (the request is sent there) and returns the locals that the
  rest needs, or \<open>None\<close> when the function returned before sending; \<open>f_finish\<close> runs from
  the outcome of the request to the end, \<open>finally\<close> included. \<open>f\<close> is the two in a row,
  with nothing in between. The text that a dialog shows is not recorded; its answer is
  a parameter. When the body of an ok response is \<open>null\<close>, \<open>data.success\<close> is the first
  property read and throws inside \<open>try\<close>.
\<close>

definition s_unknown_error :: jsstring where \<comment> \<open>Unknown error\<close>
  "s_unknown_error =
     [0x41D, 0x435, 0x438, 0x437, 0x432, 0x435, 0x441, 0x442, 0x43D, 0x430, 0x44F, 0x20,
      0x43E, 0x448, 0x438, 0x431, 0x43A, 0x430]"

definition s_installing :: jsstring where \<comment> \<open>Installing OpenVPN...\<close>
  "s_installing =
     [0x423, 0x441, 0x442, 0x430, 0x43D, 0x430, 0x432, 0x43B, 0x438, 0x432, 0x430, 0x435,
      0x43C, 0x20, 0x4F, 0x70, 0x65, 0x6E, 0x56, 0x50, 0x4E, 0x2E, 0x2E, 0x2E]"

definition s_installing_btn :: jsstring where \<comment> \<open>Installing...\<close>
  "s_installing_btn =
     [0x423, 0x441, 0x442, 0x430, 0x43D, 0x430, 0x432, 0x43B, 0x438, 0x432, 0x430, 0x435,
      0x43C, 0x2E, 0x2E, 0x2E]"

definition s_install_error :: jsstring where \<comment> \<open>Installation error\<close>
  "s_install_error =
     [0x41E, 0x448, 0x438, 0x431, 0x43A, 0x430, 0x20, 0x443, 0x441, 0x442, 0x430, 0x43D,
      0x43E, 0x432, 0x43A, 0x438]"

definition s_configuring :: jsstring where \<comment> \<open>Configuring the OpenVPN server...\<close>
  "s_configuring =
     [0x41D, 0x430, 0x441, 0x442, 0x440, 0x430, 0x438, 0x432, 0x430, 0x435, 0x43C, 0x20,
      0x4F, 0x70, 0x65, 0x6E, 0x56, 0x50, 0x4E, 0x20, 0x441, 0x435, 0x440, 0x432, 0x435,
      0x440, 0x2E, 0x2E, 0x2E]"

definition s_configuring_btn :: jsstring where \<comment> \<open>Configuring...\<close>
  "s_configuring_btn =
     [0x41D, 0x430, 0x441, 0x442, 0x440, 0x430, 0x438, 0x432, 0x430, 0x435, 0x43C, 0x2E,
      0x2E, 0x2E]"

definition s_configure_error :: jsstring where \<comment> \<open>Configuration error\<close>
  "s_configure_error =
     [0x41E, 0x448, 0x438, 0x431, 0x43A, 0x430, 0x20, 0x43D, 0x430, 0x441, 0x442, 0x440,
      0x43E, 0x439, 0x43A, 0x438]"

definition s_starting :: jsstring where \<comment> \<open>Starting the OpenVPN server...\<close>
  "s_starting =
     [0x417, 0x430, 0x43F, 0x443, 0x441, 0x43A, 0x430, 0x435, 0x43C, 0x20, 0x4F, 0x70,
      0x65, 0x6E, 0x56, 0x50, 0x4E, 0x20, 0x441, 0x435, 0x440, 0x432, 0x435, 0x440, 0x2E,
      0x2E, 0x2E]"

definition s_starting_btn :: jsstring where \<comment> \<open>Starting...\<close>
  "s_starting_btn =
     [0x417, 0x430, 0x43F, 0x443, 0x441, 0x43A, 0x430, 0x435, 0x43C, 0x2E, 0x2E, 0x2E]"

definition s_started :: jsstring where \<comment> \<open>OpenVPN server started successfully!\<close>
  "s_started =
     [0x4F, 0x70, 0x65, 0x6E, 0x56, 0x50, 0x4E, 0x20, 0x441, 0x435, 0x440, 0x432, 0x435,
      0x440, 0x20, 0x443, 0x441, 0x43F, 0x435, 0x448, 0x43D, 0x43E, 0x20, 0x437, 0x430,
      0x43F, 0x443, 0x449, 0x435, 0x43D, 0x21]"

definition s_start_error :: jsstring where \<comment> \<open>Start error\<close>
  "s_start_error =
     [0x41E, 0x448, 0x438, 0x431, 0x43A, 0x430, 0x20, 0x437, 0x430, 0x43F, 0x443, 0x441,
      0x43A, 0x430]"

definition post :: api_options where
  "post = \<lparr>opt_method = lit ''POST'', opt_body = None\<rparr>"

text \<open>The \<open>if (data.output && isConnected)\<close> blocks: the lines appended to the terminal.\<close>

definition outputToTerminal :: "jsstring \<Rightarrow> api_data \<Rightarrow> jsstring \<Rightarrow> world \<Rightarrow> world" where
  "outputToTerminal header data footer w =
     (case output data of
        None \<Rightarrow> w
      | Some out \<Rightarrow>
          if out \<noteq> [] \<and> isConnected w then
            seq [appendToTerminal header,
                 appendToTerminal (out @ [0x0A]),
                 appendToTerminal footer] w
          else w)"

definition errorLine :: "jsstring \<Rightarrow> api_data \<Rightarrow> world \<Rightarrow> world" where
  "errorLine prefix data w =
     (case error data of
        None \<Rightarrow> w
      | Some err \<Rightarrow> if err \<noteq> [] then appendToTerminal (prefix @ err @ [0x0A]) w else w)"

definition errorToTerminal :: "jsstring \<Rightarrow> api_data \<Rightarrow> world \<Rightarrow> world" where
  "errorToTerminal header data w =
     (case output data of
        None \<Rightarrow> w
      | Some out \<Rightarrow>
          if out \<noteq> [] \<and> isConnected w then
            seq [appendToTerminal header,
                 appendToTerminal (out @ [0x0A]),
                 errorLine (lit ''Error: '') data,
                 appendToTerminal (lit ''=== End Error ==='' @ [0x0A])] w
          else w)"

text \<open>\<open>data.error || data.message || 'Unknown error'\<close>\<close>

definition errorMsg :: "api_data \<Rightarrow> jsstring" where
  "errorMsg data = orElse (error data) (orElse (message data) s_unknown_error)"

subsection \<open>installOpenVPN\<close>

definition installOpenVPN_start ::
  "nat \<Rightarrow> bool \<Rightarrow> world \<Rightarrow> (nat \<times> jsstring) list option \<times> world" where
  "installOpenVPN_start serverId confirmed w =
     (if \<not> confirmed then (None, w)
      else
        let w1 = seq [emit (ConsoleLog [Str (lit ''Starting OpenVPN installation for server:''),
                                        Num serverId]),
                      showStatus s_installing (lit ''info'')] w;
            installButtons = selectButtons (lit ''installOpenVPN'') w1;
            originalHTML = originalsOf installButtons s_installing_btn w1
        in (Some originalHTML,
            seq [loadingAll installButtons s_installing_btn,
                 apiRequest_send (lit ''/api/servers/'' @ showNat serverId @ lit ''/install-openvpn/'')
                   post] w1))"

definition installOpenVPN_finish :: "(nat \<times> jsstring) list \<Rightarrow> outcome \<Rightarrow> world \<Rightarrow> world" where
  "installOpenVPN_finish originalHTML out =
     seq [case apiRequest_result out of
            Inr JsonNull \<Rightarrow>
              seq [emit (ConsoleLog [Str (lit ''API Response data:''), Null]),
                   handleApiError (Fault (NullProperty (lit ''success''))) s_install_error]
          | Inr (JsonObject data) \<Rightarrow>
              seq [emit (ConsoleLog [Str (lit ''API Response data:''), Data data]),
                   if success data = Some True then
                     seq [showStatus (domText (message data)) (lit ''success''),
                          outputToTerminal ([0x0A] @ lit ''=== OpenVPN Installation Output ==='' @ [0x0A])
                            data (lit ''=== Installation Complete ==='' @ [0x0A]),
                          reloadPage 2000]
                   else
                     seq [showStatus (s_install_error @ lit '': '' @ errorMsg data) (lit ''danger''),
                          errorToTerminal ([0x0A] @ lit ''=== Installation Error ==='' @ [0x0A]) data]]
          | Inl e \<Rightarrow> handleApiError e s_install_error,
          emit (ConsoleLog [Str (lit ''Installation request completed'')]),
          restoreAll originalHTML]"

definition installOpenVPN :: "nat \<Rightarrow> bool \<Rightarrow> outcome \<Rightarrow> world \<Rightarrow> world" where
  "installOpenVPN serverId confirmed out w =
     (case installOpenVPN_start serverId confirmed w of
        (None, w') \<Rightarrow> w'
      | (Some originalHTML, w') \<Rightarrow> installOpenVPN_finish originalHTML out w')"

subsection \<open>configureOpenVPN\<close>

definition configureOpenVPN_start ::
  "nat \<Rightarrow> bool \<Rightarrow> world \<Rightarrow> (nat \<times> jsstring) list option \<times> world" where
  "configureOpenVPN_start serverId confirmed w =
     (if \<not> confirmed then (None, w)
      else
        let w1 = seq [emit (ConsoleLog [Str (lit ''Starting OpenVPN configuration for server:''),
                                        Num serverId]),
                      showStatus s_configuring (lit ''info'')] w;
            configButtons = selectButtons (lit ''configureOpenVPN'') w1;
            originalHTML = originalsOf configButtons s_configuring_btn w1
        in (Some originalHTML,
            seq [loadingAll configButtons s_configuring_btn,
                 apiRequest_send (lit ''/api/servers/'' @ showNat serverId @ lit ''/configure-openvpn/'')
                   \<lparr>opt_method = lit ''POST'', opt_body = Some []\<rparr>] w1))"

definition configureOpenVPN_finish :: "(nat \<times> jsstring) list \<Rightarrow> outcome \<Rightarrow> world \<Rightarrow> world" where
  "configureOpenVPN_finish originalHTML out =
     seq [case apiRequest_result out of
            Inr JsonNull \<Rightarrow>
              seq [emit (ConsoleLog [Str (lit ''API Response data:''), Null]),
                   handleApiError (Fault (NullProperty (lit ''success''))) s_configure_error]
          | Inr (JsonObject data) \<Rightarrow>
              seq [emit (ConsoleLog [Str (lit ''API Response data:''), Data data]),
                   if success data = Some True then
                     seq [showStatus (domText (message data)) (lit ''success''),
                          outputToTerminal ([0x0A] @ lit ''=== OpenVPN Configuration Output ==='' @ [0x0A])
                            data (lit ''=== Configuration Complete ==='' @ [0x0A])]
                   else
                     seq [showStatus (s_configure_error @ lit '': '' @ errorMsg data) (lit ''danger''),
                          errorToTerminal ([0x0A] @ lit ''=== Configuration Error ==='' @ [0x0A]) data]]
          | Inl e \<Rightarrow> handleApiError e s_configure_error,
          emit (ConsoleLog [Str (lit ''Configuration request completed'')]),
          restoreAll originalHTML]"

definition configureOpenVPN :: "nat \<Rightarrow> bool \<Rightarrow> outcome \<Rightarrow> world \<Rightarrow> world" where
  "configureOpenVPN serverId confirmed out w =
     (case configureOpenVPN_start serverId confirmed w of
        (None, w') \<Rightarrow> w'
      | (Some originalHTML, w') \<Rightarrow> configureOpenVPN_finish originalHTML out w')"

subsection \<open>startOpenVPN\<close>

definition startOpenVPN_start ::
  "nat \<Rightarrow> bool \<Rightarrow> world \<Rightarrow> (nat \<times> jsstring) list option \<times> world" where
  "startOpenVPN_start serverId confirmed w =
     (if \<not> confirmed then (None, w)
      else
        let w1 = seq [emit (ConsoleLog [Str (lit ''Starting OpenVPN server for server:''),
                                        Num serverId]),
                      showStatus s_starting (lit ''info'')] w;
            startButtons = selectButtons (lit ''startOpenVPN'') w1;
            originalHTML = originalsOf startButtons s_starting_btn w1
        in (Some originalHTML,
            seq [loadingAll startButtons s_starting_btn,
                 apiRequest_send (lit ''/api/servers/'' @ showNat serverId @ lit ''/start-openvpn/'')
                   post] w1))"

definition startOpenVPN_finish :: "(nat \<times> jsstring) list \<Rightarrow> outcome \<Rightarrow> world \<Rightarrow> world" where
  "startOpenVPN_finish originalHTML out =
     seq [case apiRequest_result out of
            Inr JsonNull \<Rightarrow>
              seq [emit (ConsoleLog [Str (lit ''API Response data:''), Null]),
                   handleApiError (Fault (NullProperty (lit ''success''))) s_start_error]
          | Inr (JsonObject data) \<Rightarrow>
              seq [emit (ConsoleLog [Str (lit ''API Response data:''), Data data]),
                   if success data = Some True then
                     seq [showStatus s_started (lit ''success''),
                          outputToTerminal ([0x0A] @ lit ''=== OpenVPN Start Output ==='' @ [0x0A])
                            data (lit ''=== Server Started ==='' @ [0x0A]),
                          reloadPage 2000]
                   else
                     seq [showStatus (s_start_error @ lit '': '' @ errorMsg data) (lit ''danger''),
                          errorToTerminal ([0x0A] @ lit ''=== Start Error ==='' @ [0x0A]) data]]
          | Inl e \<Rightarrow> handleApiError e s_start_error,
          emit (ConsoleLog [Str (lit ''Start request completed'')]),
          restoreAll originalHTML]"

definition startOpenVPN :: "nat \<Rightarrow> bool \<Rightarrow> outcome \<Rightarrow> world \<Rightarrow> world" where
  "startOpenVPN serverId confirmed out w =
     (case startOpenVPN_start serverId confirmed w of
        (None, w') \<Rightarrow> w'
      | (Some originalHTML, w') \<Rightarrow> startOpenVPN_finish originalHTML out w')"

subsection \<open>checkStatus\<close>

definition s_error_colon :: jsstring where \<comment> \<open>Error: \<close>
  "s_error_colon =
     [0x41E, 0x448, 0x438, 0x431, 0x43A, 0x430, 0x3A, 0x20]"

definition s_checking :: jsstring where \<comment> \<open>Checking the server status...\<close>
  "s_checking =
     [0x41F, 0x440, 0x43E, 0x432, 0x435, 0x440, 0x44F, 0x435, 0x43C, 0x20, 0x441, 0x442,
      0x430, 0x442, 0x443, 0x441, 0x20, 0x441, 0x435, 0x440, 0x432, 0x435, 0x440, 0x430,
      0x2E, 0x2E, 0x2E]"

definition s_label_running :: jsstring where \<comment> \<open>(check mark) Running\<close>
  "s_label_running =
     [0x2705, 0x20, 0x420, 0x430, 0x431, 0x43E, 0x442, 0x430, 0x435, 0x442]"

definition s_label_stopped :: jsstring where \<comment> \<open>(no entry) Stopped\<close>
  "s_label_stopped =
     [0x26D4, 0x20, 0x41E, 0x441, 0x442, 0x430, 0x43D, 0x43E, 0x432, 0x43B, 0x435, 0x43D]"

definition s_label_error :: jsstring where \<comment> \<open>(cross) Error\<close>
  "s_label_error =
     [0x274C, 0x20, 0x41E, 0x448, 0x438, 0x431, 0x43A, 0x430]"

definition s_server_status :: jsstring where \<comment> \<open>Server status: \<close>
  "s_server_status =
     [0x421, 0x442, 0x430, 0x442, 0x443, 0x441, 0x20, 0x441, 0x435, 0x440, 0x432, 0x435,
      0x440, 0x430, 0x3A, 0x20]"

definition s_check_error :: jsstring where \<comment> \<open>Error while checking the status: \<close>
  "s_check_error =
     [0x41E, 0x448, 0x438, 0x431, 0x43A, 0x430, 0x20, 0x43F, 0x440, 0x438, 0x20, 0x43F,
      0x440, 0x43E, 0x432, 0x435, 0x440, 0x43A, 0x435, 0x20, 0x441, 0x442, 0x430, 0x442,
      0x443, 0x441, 0x430, 0x3A, 0x20]"

text \<open>
  The label is looked up in an object literal, \<open>{...}[data.status] || data.status\<close>. A
  property read on an object literal finds the object's own keys and, failing that, the
  properties every object inherits from \<open>Object.prototype\<close>: built-in functions, and
  \<open>__proto__\<close>, which yields \<open>Object.prototype\<close> itself. A value is written into a
  template literal by \<open>jsvalText\<close>; a built-in function \<open>f\<close> reads
  \<open>function f() { [native code] }\<close>.
\<close>

datatype jsval = VUndefined | VString jsstring | VFunction jsstring | VObjectPrototype

definition objectPrototype :: "(jsstring \<times> jsval) list" where
  "objectPrototype =
     [(lit ''constructor'', VFunction (lit ''Object'')),
      (lit ''__defineGetter__'', VFunction (lit ''__defineGetter__'')),
      (lit ''__defineSetter__'', VFunction (lit ''__defineSetter__'')),
      (lit ''hasOwnProperty'', VFunction (lit ''hasOwnProperty'')),
      (lit ''__lookupGetter__'', VFunction (lit ''__lookupGetter__'')),
      (lit ''__lookupSetter__'', VFunction (lit ''__lookupSetter__'')),
      (lit ''isPrototypeOf'', VFunction (lit ''isPrototypeOf'')),
      (lit ''propertyIsEnumerable'', VFunction (lit ''propertyIsEnumerable'')),
      (lit ''toString'', VFunction (lit ''toString'')),
      (lit ''valueOf'', VFunction (lit ''valueOf'')),
      (lit ''__proto__'', VObjectPrototype),
      (lit ''toLocaleString'', VFunction (lit ''toLocaleString''))]"

definition getProperty :: "(jsstring \<times> jsval) list \<Rightarrow> jsstring \<Rightarrow> jsval" where
  "getProperty own key =
     (case map_of own key of
        Some v \<Rightarrow> v
      | None \<Rightarrow> (case map_of objectPrototype key of Some v \<Rightarrow> v | None \<Rightarrow> VUndefined))"

definition jsvalTruthy :: "jsval \<Rightarrow> bool" where
  "jsvalTruthy v = (case v of VUndefined \<Rightarrow> False | VString s \<Rightarrow> s \<noteq> [] | _ \<Rightarrow> True)"

definition jsvalText :: "jsval \<Rightarrow> jsstring" where
  "jsvalText v =
     (case v of
        VUndefined \<Rightarrow> lit ''undefined''
      | VString s \<Rightarrow> s
      | VFunction f \<Rightarrow> lit ''function '' @ f @ lit ''() { [native code] }''
      | VObjectPrototype \<Rightarrow> lit ''[object Object]'')"

definition statusLabels :: "(jsstring \<times> jsval) list" where
  "statusLabels =
     [(lit ''running'', VString s_label_running),
      (lit ''stopped'', VString s_label_stopped),
      (lit ''error'', VString s_label_error)]"

definition statusText :: "jsstring option \<Rightarrow> jsval" where
  "statusText st =
     (let label = getProperty statusLabels (template st)
      in if jsvalTruthy label then label
         else (case st of None \<Rightarrow> VUndefined | Some s \<Rightarrow> VString s))"

definition checkStatus_start :: "nat \<Rightarrow> world \<Rightarrow> world" where
  "checkStatus_start serverId =
     seq [emit (ConsoleLog [Str (lit ''Checking server status:''), Num serverId]),
          showStatus s_checking (lit ''info''),
          apiRequest_send (lit ''/api/servers/'' @ showNat serverId @ lit ''/check-status/'') post]"

definition checkStatus_catch :: "exn \<Rightarrow> world \<Rightarrow> world" where
  "checkStatus_catch e w =
     seq [emit (ConsoleError [Str (lit ''Error checking status:''), Exn e]),
          showStatus (s_check_error @ message_of (faultMessage w) e) (lit ''danger'')] w"

definition checkStatus_finish :: "outcome \<Rightarrow> world \<Rightarrow> world" where
  "checkStatus_finish out w =
     (case apiRequest_result out of
        Inr JsonNull \<Rightarrow> checkStatus_catch (Fault (NullProperty (lit ''success''))) w
      | Inr (JsonObject data) \<Rightarrow>
          if success data = Some True then
            seq [showStatus (s_server_status @ jsvalText (statusText (status data)))
                   (if status data = Some (lit ''running'') then lit ''success'' else lit ''warning''),
                 reloadPage 1000] w
          else showStatus (s_error_colon @ template (error data)) (lit ''danger'') w
      | Inl e \<Rightarrow> checkStatus_catch e w)"

definition checkStatus :: "nat \<Rightarrow> outcome \<Rightarrow> world \<Rightarrow> world" where
  "checkStatus serverId out w = checkStatus_finish out (checkStatus_start serverId w)"

subsection \<open>reinstallOpenVPN\<close>

definition s_reinstall_cancelled :: jsstring where \<comment> \<open>Reinstallation cancelled\<close>
  "s_reinstall_cancelled =
     [0x41F, 0x435, 0x440, 0x435, 0x443, 0x441, 0x442, 0x430, 0x43D, 0x43E, 0x432, 0x43A,
      0x430, 0x20, 0x43E, 0x442, 0x43C, 0x435, 0x43D, 0x435, 0x43D, 0x430]"

definition s_reinstall_launch :: jsstring where \<comment> \<open>(gear) Starting the complete reinstallation of OpenVPN...\<close>
  "s_reinstall_launch =
     [0x2699, 0xFE0F, 0x20, 0x417, 0x430, 0x43F, 0x443, 0x441, 0x43A, 0x430, 0x435, 0x43C,
      0x20, 0x43F, 0x43E, 0x43B, 0x43D, 0x443, 0x44E, 0x20, 0x43F, 0x435, 0x440, 0x435,
      0x443, 0x441, 0x442, 0x430, 0x43D, 0x43E, 0x432, 0x43A, 0x443, 0x20, 0x4F, 0x70,
      0x65, 0x6E, 0x56, 0x50, 0x4E, 0x2E, 0x2E, 0x2E]"

definition s_reinstalling_btn :: jsstring where \<comment> \<open>Reinstalling...\<close>
  "s_reinstalling_btn =
     [0x41F, 0x435, 0x440, 0x435, 0x443, 0x441, 0x442, 0x430, 0x43D, 0x430, 0x432, 0x43B,
      0x438, 0x432, 0x430, 0x435, 0x43C, 0x2E, 0x2E, 0x2E]"

definition s_progress_1 :: jsstring where \<comment> \<open>Stopping the OpenVPN server...\<close>
  "s_progress_1 =
     [0x41E, 0x441, 0x442, 0x430, 0x43D, 0x430, 0x432, 0x43B, 0x438, 0x432, 0x430, 0x435,
      0x43C, 0x20, 0x4F, 0x70, 0x65, 0x6E, 0x56, 0x50, 0x4E, 0x20, 0x441, 0x435, 0x440,
      0x432, 0x435, 0x440, 0x2E, 0x2E, 0x2E]"

definition s_progress_2 :: jsstring where \<comment> \<open>Removing the old configuration...\<close>
  "s_progress_2 =
     [0x423, 0x434, 0x430, 0x43B, 0x44F, 0x435, 0x43C, 0x20, 0x441, 0x442, 0x430, 0x440,
      0x44B, 0x435, 0x20, 0x43A, 0x43E, 0x43D, 0x444, 0x438, 0x433, 0x443, 0x440, 0x430,
      0x446, 0x438, 0x438, 0x2E, 0x2E, 0x2E]"

definition s_progress_3 :: jsstring where \<comment> \<open>Reinstalling OpenVPN...\<close>
  "s_progress_3 =
     [0x41F, 0x435, 0x440, 0x435, 0x443, 0x441, 0x442, 0x430, 0x43D, 0x430, 0x432, 0x43B,
      0x438, 0x432, 0x430, 0x435, 0x43C, 0x20, 0x4F, 0x70, 0x65, 0x6E, 0x56, 0x50, 0x4E,
      0x2E, 0x2E, 0x2E]"

definition s_progress_4 :: jsstring where \<comment> \<open>Configuring the server...\<close>
  "s_progress_4 =
     [0x41D, 0x430, 0x441, 0x442, 0x440, 0x430, 0x438, 0x432, 0x430, 0x435, 0x43C, 0x20,
      0x441, 0x435, 0x440, 0x432, 0x435, 0x440, 0x2E, 0x2E, 0x2E]"

definition s_progress_5 :: jsstring where \<comment> \<open>Starting OpenVPN...\<close>
  "s_progress_5 =
     [0x417, 0x430, 0x43F, 0x443, 0x441, 0x43A, 0x430, 0x435, 0x43C, 0x20, 0x4F, 0x70,
      0x65, 0x6E, 0x56, 0x50, 0x4E, 0x2E, 0x2E, 0x2E]"

definition s_hourglass :: jsstring where \<comment> \<open>(hourglass) and a space\<close>
  "s_hourglass =
     [0x23F3, 0x20]"

definition s_check_mark :: jsstring where \<comment> \<open>(check mark) and a space\<close>
  "s_check_mark =
     [0x2705, 0x20]"

definition s_service_up :: jsstring where \<comment> \<open>(check mark) The OpenVPN server is running\<close>
  "s_service_up =
     [0x2705, 0x20, 0x4F, 0x70, 0x65, 0x6E, 0x56, 0x50, 0x4E, 0x20, 0x441, 0x435, 0x440,
      0x432, 0x435, 0x440, 0x20, 0x440, 0x430, 0x431, 0x43E, 0x442, 0x430, 0x435, 0x442]"

definition s_service_down :: jsstring where \<comment> \<open>(warning) OpenVPN is installed but not running (check the logs)\<close>
  "s_service_down =
     [0x26A0, 0xFE0F, 0x20, 0x4F, 0x70, 0x65, 0x6E, 0x56, 0x50, 0x4E, 0x20, 0x443, 0x441,
      0x442, 0x430, 0x43D, 0x43E, 0x432, 0x43B, 0x435, 0x43D, 0x2C, 0x20, 0x43D, 0x43E,
      0x20, 0x43D, 0x435, 0x20, 0x437, 0x430, 0x43F, 0x443, 0x449, 0x435, 0x43D, 0x20,
      0x28, 0x43F, 0x440, 0x43E, 0x432, 0x435, 0x440, 0x44C, 0x442, 0x435, 0x20, 0x43B,
      0x43E, 0x433, 0x438, 0x29]"

definition s_reload_notice :: jsstring where \<comment> \<open>The page will be reloaded in 3 seconds...\<close>
  "s_reload_notice =
     [0x421, 0x442, 0x440, 0x430, 0x43D, 0x438, 0x446, 0x430, 0x20, 0x431, 0x443, 0x434,
      0x435, 0x442, 0x20, 0x43F, 0x435, 0x440, 0x435, 0x437, 0x430, 0x433, 0x440, 0x443,
      0x436, 0x435, 0x43D, 0x430, 0x20, 0x447, 0x435, 0x440, 0x435, 0x437, 0x20, 0x33,
      0x20, 0x441, 0x435, 0x43A, 0x443, 0x43D, 0x434, 0x44B, 0x2E, 0x2E, 0x2E]"

definition s_reinstall_error :: jsstring where \<comment> \<open>(cross) Reinstallation error: \<close>
  "s_reinstall_error =
     [0x274C, 0x20, 0x41E, 0x448, 0x438, 0x431, 0x43A, 0x430, 0x20, 0x43F, 0x435, 0x440,
      0x435, 0x443, 0x441, 0x442, 0x430, 0x43D, 0x43E, 0x432, 0x43A, 0x438, 0x3A, 0x20]"

definition s_cross_error :: jsstring where \<comment> \<open>(cross) Error: \<close>
  "s_cross_error =
     [0x274C, 0x20, 0x41E, 0x448, 0x438, 0x431, 0x43A, 0x430, 0x3A, 0x20]"

definition progressMessages :: "jsstring list" where
  "progressMessages = [s_progress_1, s_progress_2, s_progress_3, s_progress_4, s_progress_5]"

text \<open>
  The callback of \<open>setInterval\<close>: interval \<open>t\<close> shows the next progress message while
  there is one. \<open>clearInterval\<close> is called after the \<open>await\<close> inside \<open>try\<close>, so an interval
  stays armed when the request throws.
\<close>

definition progressTick :: "nat \<Rightarrow> world \<Rightarrow> world" where
  "progressTick t w =
     (if t < length (timers w) then
        (case timers w ! t of
           None \<Rightarrow> w
         | Some currentStep \<Rightarrow>
             if currentStep < length progressMessages then
               (showStatus (s_hourglass @ progressMessages ! currentStep) (lit ''info'') w)
                 \<lparr>timers := (timers w)[t := Some (currentStep + 1)]\<rparr>
             else w)
      else w)"

definition setInterval :: "world \<Rightarrow> world" where
  "setInterval w = w\<lparr>timers := timers w @ [Some 0]\<rparr>"

definition clearInterval :: "nat \<Rightarrow> world \<Rightarrow> world" where
  "clearInterval t w = w\<lparr>timers := (timers w)[t := None]\<rparr>"

text \<open>
  The second confirmation: \<open>!confirmText || (confirmText !== 'REINSTALL' &&
  confirmText.toLowerCase() !== 'reinstall')\<close> cancels. \<open>prompt\<close> gives \<open>null\<close> (\<open>None\<close>)
  when it is dismissed.
\<close>

definition reinstallRefused :: "world \<Rightarrow> jsstring option \<Rightarrow> bool" where
  "reinstallRefused w confirmText =
     (case confirmText of
        None \<Rightarrow> True
      | Some t \<Rightarrow>
          t = [] \<or> (t \<noteq> lit ''REINSTALL'' \<and> toLowerCase (lowerTable w) t \<noteq> lit ''reinstall''))"

definition reinstallOpenVPN_start ::
  "nat \<Rightarrow> bool \<Rightarrow> jsstring option \<Rightarrow> world \<Rightarrow> ((nat \<times> jsstring) list \<times> nat) option \<times> world" where
  "reinstallOpenVPN_start serverId confirmed confirmText w =
     (let w0 = emit (ConsoleLog [Str (lit ''reinstallOpenVPN function called with serverId:''),
                                 Num serverId]) w
      in if \<not> confirmed then (None, w0)
         else if reinstallRefused w0 confirmText then
           (None, showStatus s_reinstall_cancelled (lit ''warning'') w0)
         else
           let w1 = seq [emit (ConsoleLog
                           [Str (lit ''Starting complete OpenVPN reinstallation for server:''),
                            Num serverId]),
                         showStatus s_reinstall_launch (lit ''warning'')] w0;
               reinstallButtons = selectButtons (lit ''reinstallOpenVPN'') w1;
               originalHTML = originalsOf reinstallButtons s_reinstalling_btn w1;
               progressInterval = length (timers w1)
           in (Some (originalHTML, progressInterval),
               seq [loadingAll reinstallButtons s_reinstalling_btn,
                    setInterval,
                    apiRequest_send
                      (lit ''/api/servers/'' @ showNat serverId @ lit ''/reinstall-openvpn/'') post]
                 w1))"

definition stepsToTerminal :: "jsstring list \<Rightarrow> world \<Rightarrow> world" where
  "stepsToTerminal sts = seq (map (\<lambda>step. appendToTerminal (step @ [0x0A])) sts)"

definition reinstallOpenVPN_catch :: "exn \<Rightarrow> world \<Rightarrow> world" where
  "reinstallOpenVPN_catch e w =
     seq [emit (ConsoleError [Str (lit ''Error reinstalling OpenVPN:''), Exn e]),
          showStatus (s_cross_error @ message_of (faultMessage w) e) (lit ''danger''),
          if isConnected w then
            seq [appendToTerminal ([0x0A] @ lit ''=== Reinstallation Failed ==='' @ [0x0A]),
                 appendToTerminal (lit ''Error: '' @ message_of (faultMessage w) e @ [0x0A]),
                 appendToTerminal (lit ''Stack: '' @ stackTrace w e @ [0x0A]),
                 appendToTerminal (lit ''=== End Error ==='' @ [0x0A])]
          else id] w"

definition reinstallOpenVPN_finish ::
  "(nat \<times> jsstring) list \<times> nat \<Rightarrow> outcome \<Rightarrow> world \<Rightarrow> world" where
  "reinstallOpenVPN_finish locals out =
     seq [case apiRequest_result out of
            Inr JsonNull \<Rightarrow>
              seq [clearInterval (snd locals),
                   emit (ConsoleLog [Str (lit ''Reinstallation API Response:''), Null]),
                   reinstallOpenVPN_catch (Fault (NullProperty (lit ''success'')))]
          | Inr (JsonObject data) \<Rightarrow>
              seq [clearInterval (snd locals),
                   emit (ConsoleLog [Str (lit ''Reinstallation API Response:''), Data data]),
                   if success data = Some True then
                     seq [showStatus (s_check_mark @ template (message data)) (lit ''success''),
                          (\<lambda>w. case steps data of
                                  None \<Rightarrow> w
                                | Some sts \<Rightarrow>
                                    if isConnected w then
                                      seq [appendToTerminal
                                             ([0x0A] @ lit ''=== OpenVPN Reinstallation Steps ==='' @ [0x0A]),
                                           stepsToTerminal sts,
                                           appendToTerminal
                                             (lit ''=== Reinstallation Complete ==='' @ [0x0A])] w
                                    else w),
                          (case service_running data of
                             None \<Rightarrow> id
                           | Some running \<Rightarrow>
                               showStatus (if running then s_service_up else s_service_down)
                                 (if running then lit ''success'' else lit ''warning'')),
                          showStatus s_reload_notice (lit ''info''),
                          reloadPage 3000]
                   else
                     seq [showStatus (s_reinstall_error @ errorMsg data) (lit ''danger''),
                          (\<lambda>w. case steps data of
                                  None \<Rightarrow> w
                                | Some sts \<Rightarrow>
                                    if isConnected w then
                                      seq [appendToTerminal
                                             ([0x0A] @ lit ''=== Reinstallation Error ==='' @ [0x0A]),
                                           stepsToTerminal sts,
                                           errorLine ([0x0A] @ lit ''Error: '') data,
                                           appendToTerminal (lit ''=== End Error ==='' @ [0x0A])] w
                                    else w)]]
          | Inl e \<Rightarrow> reinstallOpenVPN_catch e,
          emit (ConsoleLog [Str (lit ''Reinstallation request completed'')]),
          restoreAll (fst locals)]"

text \<open>\<open>ticks\<close> is the number of times the interval fired before the outcome arrived.\<close>

definition reinstallOpenVPN ::
  "nat \<Rightarrow> bool \<Rightarrow> jsstring option \<Rightarrow> nat \<Rightarrow> outcome \<Rightarrow> world \<Rightarrow> world" where
  "reinstallOpenVPN serverId confirmed confirmText ticks out w =
     (case reinstallOpenVPN_start serverId confirmed confirmText w of
        (None, w') \<Rightarrow> w'
      | (Some locals, w') \<Rightarrow>
          reinstallOpenVPN_finish locals out ((progressTick (snd locals) ^^ ticks) w'))"

subsection \<open>syncClients\<close>


definition s_on_server :: jsstring where \<comment> \<open>newline, Clients on the server: \<close>
  "s_on_server =
     [0xA, 0x41A, 0x43B, 0x438, 0x435, 0x43D, 0x442, 0x43E, 0x432, 0x20, 0x43D, 0x430,
      0x20, 0x441, 0x435, 0x440, 0x432, 0x435, 0x440, 0x435, 0x3A, 0x20]"

definition s_in_db :: jsstring where \<comment> \<open>newline, Clients in the database: \<close>
  "s_in_db =
     [0xA, 0x41A, 0x43B, 0x438, 0x435, 0x43D, 0x442, 0x43E, 0x432, 0x20, 0x432, 0x20,
      0x411, 0x414, 0x3A, 0x20]"

definition s_removed :: jsstring where \<comment> \<open>newline, Removed: \<close>
  "s_removed =
     [0xA, 0x423, 0x434, 0x430, 0x43B, 0x435, 0x43D, 0x43E, 0x3A, 0x20]"

definition s_new_clients :: jsstring where \<comment> \<open>(warning) New clients were found on the server that are not in the database: \<close>
  "s_new_clients =
     [0x26A0, 0xFE0F, 0x20, 0x41D, 0x430, 0x20, 0x441, 0x435, 0x440, 0x432, 0x435, 0x440,
      0x435, 0x20, 0x43D, 0x430, 0x439, 0x434, 0x435, 0x43D, 0x44B, 0x20, 0x43D, 0x43E,
      0x432, 0x44B, 0x435, 0x20, 0x43A, 0x43B, 0x438, 0x435, 0x43D, 0x442, 0x44B, 0x2C,
      0x20, 0x43A, 0x43E, 0x442, 0x43E, 0x440, 0x44B, 0x445, 0x20, 0x43D, 0x435, 0x442,
      0x20, 0x432, 0x20, 0x411, 0x414, 0x3A, 0x20]"

definition s_sync_error :: jsstring where \<comment> \<open>(cross) Synchronisation error: \<close>
  "s_sync_error =
     [0x274C, 0x20, 0x41E, 0x448, 0x438, 0x431, 0x43A, 0x430, 0x20, 0x441, 0x438, 0x43D,
      0x445, 0x440, 0x43E, 0x43D, 0x438, 0x437, 0x430, 0x446, 0x438, 0x438, 0x3A, 0x20]"

text \<open>\<open>n || 0\<close> for an optional count, and \<open>Array.prototype.join\<close>.\<close>

definition orZero :: "nat option \<Rightarrow> nat" where
  "orZero v = (case v of None \<Rightarrow> 0 | Some n \<Rightarrow> n)"

fun join :: "jsstring \<Rightarrow> jsstring list \<Rightarrow> jsstring" where
  "join sep [] = []"
| "join sep [x] = x"
| "join sep (x # y # ys) = x @ sep @ join sep (y # ys)"


definition syncClients_catch :: "exn \<Rightarrow> world \<Rightarrow> world" where
  "syncClients_catch e w =
     seq [emit (ConsoleError [Str (lit ''Error syncing clients:''), Exn e]),
          showStatus (s_cross_error @ message_of (faultMessage w) e) (lit ''danger'')] w"

definition syncClients_finish :: "outcome \<Rightarrow> world \<Rightarrow> world" where
  "syncClients_finish out w =
     (case apiRequest_result out of
        Inr JsonNull \<Rightarrow>
          seq [emit (ConsoleLog [Str (lit ''Sync Clients Response:''), Null]),
               syncClients_catch (Fault (NullProperty (lit ''success'')))] w
      | Inr (JsonObject data) \<Rightarrow>
          seq [emit (ConsoleLog [Str (lit ''Sync Clients Response:''), Data data]),
               if success data = Some True then
                 seq [showStatus
                        (s_check_mark @ template (message data)
                         @ s_on_server @ showNat (orZero (clients_on_server data))
                         @ s_in_db @ showNat (orZero (clients_in_db data))
                         @ s_removed @ showNat (orZero (clients_removed data)))
                        (lit ''success''),
                      (case orphaned_clients data of
                         None \<Rightarrow> id
                       | Some orphaned \<Rightarrow>
                           if length orphaned > 0 then
                             emit (ConsoleLog [Str (lit ''Removed orphaned clients:''), Strs orphaned])
                           else id),
                      (case new_clients data of
                         None \<Rightarrow> id
                       | Some new \<Rightarrow>
                           if length new > 0 then
                             seq [emit (ConsoleLog [Str (lit ''New clients on server:''), Strs new]),
                                  showStatus (s_new_clients @ join (lit '', '') new) (lit ''warning'')]
                           else id),
                      reloadPage 2000]
               else showStatus (s_sync_error @ orElse (error data) s_unknown_error) (lit ''danger'')] w
      | Inl e \<Rightarrow> syncClients_catch e w)"


subsection \<open>generateSSHKey\<close>







definition generateSSHKey_catch :: "exn \<Rightarrow> world \<Rightarrow> world" where
  "generateSSHKey_catch e w =
     seq [emit (ConsoleError [Str (lit ''Error generating SSH key:''), Exn e]),
          showStatus (s_error_colon @ message_of (faultMessage w) e) (lit ''danger'')] w"



section \<open>Client management module\<close>

subsection \<open>createClient\<close>

definition s_success_title :: jsstring where \<comment> \<open>Success (alert title)\<close>
  "s_success_title =
     [0x423, 0x441, 0x43F, 0x435, 0x448, 0x43D, 0x43E]"

definition s_enter_name :: jsstring where \<comment> \<open>Enter the client name\<close>
  "s_enter_name =
     [0x412, 0x432, 0x435, 0x434, 0x438, 0x442, 0x435, 0x20, 0x438, 0x43C, 0x44F, 0x20,
      0x43A, 0x43B, 0x438, 0x435, 0x43D, 0x442, 0x430]"

definition s_bad_name :: jsstring where \<comment> \<open>The client name may contain only Latin letters, digits, hyphen and underscore\<close>
  "s_bad_name =
     [0x418, 0x43C, 0x44F, 0x20, 0x43A, 0x43B, 0x438, 0x435, 0x43D, 0x442, 0x430, 0x20,
      0x43C, 0x43E, 0x436, 0x435, 0x442, 0x20, 0x441, 0x43E, 0x434, 0x435, 0x440, 0x436,
      0x430, 0x442, 0x44C, 0x20, 0x442, 0x43E, 0x43B, 0x44C, 0x43A, 0x43E, 0x20, 0x43B,
      0x430, 0x442, 0x438, 0x43D, 0x441, 0x43A, 0x438, 0x435, 0x20, 0x431, 0x443, 0x43A,
      0x432, 0x44B, 0x2C, 0x20, 0x446, 0x438, 0x444, 0x440, 0x44B, 0x2C, 0x20, 0x434,
      0x435, 0x444, 0x438, 0x441, 0x20, 0x438, 0x20, 0x43F, 0x43E, 0x434, 0x447, 0x435,
      0x440, 0x43A, 0x438, 0x432, 0x430, 0x43D, 0x438, 0x435]"

definition s_bad_email :: jsstring where \<comment> \<open>Enter a correct email address\<close>
  "s_bad_email =
     [0x412, 0x432, 0x435, 0x434, 0x438, 0x442, 0x435, 0x20, 0x43A, 0x43E, 0x440, 0x440,
      0x435, 0x43A, 0x442, 0x43D, 0x44B, 0x439, 0x20, 0x65, 0x6D, 0x61, 0x69, 0x6C, 0x20,
      0x430, 0x434, 0x440, 0x435, 0x441]"

definition s_creating_btn :: jsstring where \<comment> \<open>Creating...\<close>
  "s_creating_btn =
     [0x421, 0x43E, 0x437, 0x434, 0x430, 0x435, 0x43C, 0x2E, 0x2E, 0x2E]"

definition s_client_pre :: jsstring where \<comment> \<open>Client and an opening double quote\<close>
  "s_client_pre =
     [0x41A, 0x43B, 0x438, 0x435, 0x43D, 0x442, 0x20, 0x22]"

definition s_client_created :: jsstring where \<comment> \<open>closing double quote, created successfully!, two newlines, ID: \<close>
  "s_client_created =
     [0x22, 0x20, 0x443, 0x441, 0x43F, 0x435, 0x448, 0x43D, 0x43E, 0x20, 0x441, 0x43E,
      0x437, 0x434, 0x430, 0x43D, 0x21, 0xA, 0xA, 0x49, 0x44, 0x3A, 0x20]"

definition s_client_hint :: jsstring where \<comment> \<open>two newlines, Now you can download the .ovpn configuration file\<close>
  "s_client_hint =
     [0xA, 0xA, 0x422, 0x435, 0x43F, 0x435, 0x440, 0x44C, 0x20, 0x432, 0x44B, 0x20, 0x43C,
      0x43E, 0x436, 0x435, 0x442, 0x435, 0x20, 0x441, 0x43A, 0x430, 0x447, 0x430, 0x442,
      0x44C, 0x20, 0x43A, 0x43E, 0x43D, 0x444, 0x438, 0x433, 0x443, 0x440, 0x430, 0x446,
      0x438, 0x43E, 0x43D, 0x43D, 0x44B, 0x439, 0x20, 0x444, 0x430, 0x439, 0x43B, 0x20,
      0x2E, 0x6F, 0x76, 0x70, 0x6E]"

definition s_create_error :: jsstring where \<comment> \<open>Client creation error\<close>
  "s_create_error =
     [0x41E, 0x448, 0x438, 0x431, 0x43A, 0x430, 0x20, 0x441, 0x43E, 0x437, 0x434, 0x430,
      0x43D, 0x438, 0x44F, 0x20, 0x43A, 0x43B, 0x438, 0x435, 0x43D, 0x442, 0x430]"

text \<open>
  \<open>createClient\<close> reads the page: the server id from the \<open>data-server-id\<close> attribute
  (\<open>undefined\<close> when no element has it) and the trimmed values of the two inputs. The
  three checks return before anything is sent. \<open>form.reset()\<close> empties the two inputs.
\<close>

definition idText :: "jsstring option \<Rightarrow> logarg" where
  "idText v = (case v of None \<Rightarrow> Undefined | Some s \<Rightarrow> Str s)"

definition requestData :: "jsstring \<Rightarrow> jsstring \<Rightarrow> (jsstring \<times> jvalue) list" where
  "requestData clientName clientEmail =
     [(lit ''client_name'', JString clientName)]
     @ (if clientEmail \<noteq> [] then [(lit ''email'', JString clientEmail)] else [])"

definition createClient_start :: "world \<Rightarrow> (jsstring \<times> jsstring) option \<times> world" where
  "createClient_start w =
     (let serverId = serverIdAttr w;
          clientName = trim (clientNameField w);
          clientEmail = trim (clientEmailField w)
      in if clientName = [] then (None, showAlert s_enter_name [] w)
         else if \<not> isValidClientName clientName then (None, showAlert s_bad_name [] w)
         else if clientEmail \<noteq> [] \<and> \<not> isValidEmail clientEmail then
           (None, showAlert s_bad_email [] w)
         else
           let w1 = emit (ConsoleLog [Str (lit ''Creating client:''), Str clientName,
                                      Str (lit ''for server:''), idText serverId]) w;
               originalText = fst (showButtonLoading (createClientBtn w1) s_creating_btn);
               w2 = w1\<lparr>createClientBtn := snd (showButtonLoading (createClientBtn w1) s_creating_btn)\<rparr>
           in (Some (clientName, originalText),
               apiRequest_send (lit ''/api/servers/'' @ template serverId @ lit ''/create-client/'')
                 \<lparr>opt_method = lit ''POST'',
                  opt_body = Some (requestData clientName clientEmail)\<rparr> w2))"

definition formReset :: "world \<Rightarrow> world" where
  "formReset w = emit FormReset (w\<lparr>clientNameField := [], clientEmailField := []\<rparr>)"

definition createClient_finish :: "jsstring \<times> jsstring \<Rightarrow> outcome \<Rightarrow> world \<Rightarrow> world" where
  "createClient_finish locals out =
     seq [case apiRequest_result out of
            Inr JsonNull \<Rightarrow>
              seq [emit (ConsoleLog [Str (lit ''API Response data:''), Null]),
                   handleApiError (Fault (NullProperty (lit ''success''))) s_create_error]
          | Inr (JsonObject data) \<Rightarrow>
              seq [emit (ConsoleLog [Str (lit ''API Response data:''), Data data]),
                   if success data = Some True then
                     seq [showAlert (s_client_pre @ fst locals @ s_client_created
                                     @ template (client_id data) @ s_client_hint) s_success_title,
                          emit ModalHidden,
                          formReset,
                          outputToTerminal ([0x0A] @ lit ''=== Client Creation Output ==='' @ [0x0A])
                            data (lit ''=== Client Created Successfully ==='' @ [0x0A]),
                          reloadPage 1500]
                   else
                     seq [showAlert (s_create_error @ lit '': '' @ errorMsg data) s_error_title,
                          errorToTerminal ([0x0A] @ lit ''=== Client Creation Error ==='' @ [0x0A]) data]]
          | Inl e \<Rightarrow> handleApiError e s_create_error,
          emit (ConsoleLog [Str (lit ''Client creation request completed'')]),
          (\<lambda>w. w\<lparr>createClientBtn := restoreButton (createClientBtn w) (snd locals)\<rparr>)]"

definition createClient :: "outcome \<Rightarrow> world \<Rightarrow> world" where
  "createClient out w =
     (case createClient_start w of
        (None, w') \<Rightarrow> w'
      | (Some locals, w') \<Rightarrow> createClient_finish locals out w')"

subsection \<open>downloadClientConfig\<close>

definition s_file_pre :: jsstring where \<comment> \<open>Configuration file and an opening double quote\<close>
  "s_file_pre =
     [0x41A, 0x43E, 0x43D, 0x444, 0x438, 0x433, 0x443, 0x440, 0x430, 0x446, 0x438, 0x43E,
      0x43D, 0x43D, 0x44B, 0x439, 0x20, 0x444, 0x430, 0x439, 0x43B, 0x20, 0x22]"

definition s_file_post :: jsstring where \<comment> \<open>closing double quote, downloaded successfully!\<close>
  "s_file_post =
     [0x22, 0x20, 0x443, 0x441, 0x43F, 0x435, 0x448, 0x43D, 0x43E, 0x20, 0x441, 0x43A,
      0x430, 0x447, 0x430, 0x43D, 0x21]"

definition s_download_error :: jsstring where \<comment> \<open>Download error\<close>
  "s_download_error =
     [0x41E, 0x448, 0x438, 0x431, 0x43A, 0x430, 0x20, 0x441, 0x43A, 0x430, 0x447, 0x438,
      0x432, 0x430, 0x43D, 0x438, 0x44F]"

text \<open>
  The selector \<open>button[onclick*="downloadClientConfig('NAME')"]\<close> is built from the client
  name. For a plain name (no double quote, backslash, line break, NUL or surrogate) it
  selects the buttons whose \<open>onclick\<close> contains the text between the quotes; for any
  other name the page's \<open>oddSelector\<close> says what it selects, or that it is a syntax
  error, which \<open>querySelectorAll\<close> throws before anything is sent.
\<close>

definition plainText :: "jsstring \<Rightarrow> bool" where
  "plainText s =
     list_all (\<lambda>c. c \<noteq> 0x22 \<and> c \<noteq> 0x5C \<and> c \<noteq> 0x0A \<and> c \<noteq> 0x0C \<and> c \<noteq> 0x0D \<and> c \<noteq> 0x00
                  \<and> \<not> (0xD800 \<le> c \<and> c \<le> 0xDFFF)) s"

definition selectDownloadButtons :: "jsstring \<Rightarrow> world \<Rightarrow> nat list option" where
  "selectDownloadButtons clientName w =
     (if plainText clientName
      then Some (selectButtons (lit ''downloadClientConfig('' @ [0x27] @ clientName @ [0x27] @ lit '')'') w)
      else oddSelector w clientName)"

text \<open>
  \<open>contentDisposition.match(/filename="?(.+)"?/)\<close>, first capture group. The match
  starts at the leftmost \<open>filename=\<close> after which it can succeed. There the optional
  quote is taken when at least one unit can follow it, \<open>(.+)\<close> then takes every unit up
  to the next line terminator (or the end), and the last \<open>"?\<close> is left with nothing.
\<close>

definition dotChar :: "jschar \<Rightarrow> bool" where
  "dotChar c = (c \<noteq> 0x0A \<and> c \<noteq> 0x0D \<and> c \<noteq> 0x2028 \<and> c \<noteq> 0x2029)"

definition captureAfter :: "jsstring \<Rightarrow> jsstring option" where
  "captureAfter rest =
     (case rest of
        [] \<Rightarrow> None
      | q # r \<Rightarrow>
          if q = 0x22 \<and> takeWhile dotChar r \<noteq> [] then Some (takeWhile dotChar r)
          else if takeWhile dotChar rest \<noteq> [] then Some (takeWhile dotChar rest)
          else None)"

fun matchFilename :: "jsstring \<Rightarrow> jsstring option" where
  "matchFilename [] = None"
| "matchFilename (c # cs) =
     (if isPrefix (lit ''filename='') (c # cs) then
        (case captureAfter (drop 9 (c # cs)) of
           Some g \<Rightarrow> Some g
         | None \<Rightarrow> matchFilename cs)
      else matchFilename cs)"

definition downloadFilename :: "jsstring \<Rightarrow> jsstring option \<Rightarrow> jsstring" where
  "downloadFilename clientName contentDisposition =
     (case contentDisposition of
        None \<Rightarrow> clientName @ lit ''.ovpn''
      | Some h \<Rightarrow>
          if h = [] then clientName @ lit ''.ovpn''
          else (case matchFilename h of
                  None \<Rightarrow> clientName @ lit ''.ovpn''
                | Some filename \<Rightarrow> filename))"

definition downloadClientConfig_start :: "jsstring \<Rightarrow> world \<Rightarrow> nat list option \<times> world" where
  "downloadClientConfig_start clientName w =
     (let serverId = serverIdAttr w;
          w1 = emit (ConsoleLog [Str (lit ''Downloading client config:''), Str clientName,
                                 Str (lit ''from server:''), idText serverId]) w
      in case selectDownloadButtons clientName w1 of
           None \<Rightarrow> (None, w1)
         | Some downloadBtns \<Rightarrow>
             (Some downloadBtns,
              emit (Fetch \<lparr>url = lit ''/api/servers/'' @ template serverId @ lit ''/download-client/''
                                 @ clientName @ lit ''/'',
                           http_method = lit ''GET'',
                           headers = [(lit ''X-CSRFToken'', getCookie w1 (lit ''csrftoken''))],
                           body = None\<rparr>)
                (w1\<lparr>buttons :=
                      fold (\<lambda>i bs. bs[i := (bs ! i)\<lparr>disabled := True,
                                 innerHTML := lit ''<i class=\"fas fa-spinner fa-spin\"></i>''\<rparr>])
                        downloadBtns (buttons w1)\<rparr>)))"

definition downloadClientConfig_finish ::
  "jsstring \<Rightarrow> nat list \<Rightarrow> outcome \<Rightarrow> world \<Rightarrow> world" where
  "downloadClientConfig_finish clientName downloadBtns out =
     seq [case out of
            Rejected \<Rightarrow> handleApiError (Fault FetchFailed) s_download_error
          | Resolved r \<Rightarrow>
              seq [emit (ConsoleLog [Str (lit ''Download response status:''), Num (http_status r)]),
                   if \<not> ok r then
                     handleApiError
                       (case json r of
                          None \<Rightarrow>
                            Error (lit ''HTTP error! status: '' @ showNat (http_status r))
                        | Some JsonNull \<Rightarrow> Fault (NullProperty (lit ''error''))
                        | Some (JsonObject d) \<Rightarrow>
                            Error (orElse (error d)
                                     (lit ''HTTP error! status: '' @ showNat (http_status r))))
                       s_download_error
                   else
                     (let filename = downloadFilename clientName (content_disposition r)
                      in seq [emit (ConsoleLog [Str (lit ''Downloaded file:''), Str filename,
                                                Str (lit ''size:''), Num (blob_size r)]),
                              downloadBlob (blob_size r) filename,
                              (\<lambda>w. if isConnected w
                                    then appendToTerminal ([0x0A] @ lit ''=== Downloaded: '' @ filename
                                                           @ lit '' ==='' @ [0x0A]) w
                                    else w),
                              showAlert (s_file_pre @ filename @ s_file_post) s_success_title])],
          emit (ConsoleLog [Str (lit ''Download request completed'')]),
          (\<lambda>w. w\<lparr>buttons :=
                   fold (\<lambda>i bs. bs[i := (bs ! i)\<lparr>disabled := False,
                              innerHTML := lit ''<i class=\"fas fa-download\"></i>''\<rparr>])
                     downloadBtns (buttons w)\<rparr>)]"

definition downloadClientConfig :: "jsstring \<Rightarrow> outcome \<Rightarrow> world \<Rightarrow> world" where
  "downloadClientConfig clientName out w =
     (case downloadClientConfig_start clientName w of
        (None, w') \<Rightarrow> w'
      | (Some downloadBtns, w') \<Rightarrow> downloadClientConfig_finish clientName downloadBtns out w')"

section \<open>Several actions on one page\<close>

text \<open>
  The buttons of the page call the actions from their \<open>onclick\<close> attribute, as the
  selectors of the scripts (\<open>button[onclick*="installOpenVPN"]\<close>) presuppose:
  \<open>handlerText a\<close> is the attribute of a button for the lifecycle action \<open>a\<close>. A handler
  runs up to its \<open>await\<close> without interruption; while its request is in flight the page
  reacts to further clicks and to the progress timer of a reinstallation, and the outcome
  of any request in flight may arrive next. A session is the page together with the
  actions in flight, each with its locals: the buttons it selected, with their former
  markup (\<open>originals\<close>, which its \<open>finally\<close> restores), and its interval. A click on a
  disabled button dispatches no event. The reload that a successful action schedules is
  only recorded in the trace: a session is the life of one page load.
\<close>

datatype action =
    InstallOpenVPN nat | ConfigureOpenVPN nat | StartOpenVPN nat | ReinstallOpenVPN nat

definition serverOf :: "action \<Rightarrow> nat" where
  "serverOf a =
     (case a of InstallOpenVPN n \<Rightarrow> n | ConfigureOpenVPN n \<Rightarrow> n
              | StartOpenVPN n \<Rightarrow> n | ReinstallOpenVPN n \<Rightarrow> n)"

definition functionName :: "action \<Rightarrow> jsstring" where
  "functionName a =
     (case a of InstallOpenVPN n \<Rightarrow> lit ''installOpenVPN''
              | ConfigureOpenVPN n \<Rightarrow> lit ''configureOpenVPN''
              | StartOpenVPN n \<Rightarrow> lit ''startOpenVPN''
              | ReinstallOpenVPN n \<Rightarrow> lit ''reinstallOpenVPN'')"

definition handlerText :: "action \<Rightarrow> jsstring" where
  "handlerText a = functionName a @ lit ''('' @ showNat (serverOf a) @ lit '')''"

record pending =
  running :: action
  originals :: "(nat \<times> jsstring) list"
  interval :: nat

record session =
  page :: world
  inflight :: "pending list"

text \<open>\<open>confirmed\<close> and \<open>confirmText\<close> are the user's answers to the dialogs of the action.\<close>

definition startAction ::
  "action \<Rightarrow> bool \<Rightarrow> jsstring option \<Rightarrow> world \<Rightarrow> pending option \<times> world" where
  "startAction a confirmed confirmText w =
     (case a of
        InstallOpenVPN n \<Rightarrow>
          (case installOpenVPN_start n confirmed w of
             (None, w') \<Rightarrow> (None, w')
           | (Some h, w') \<Rightarrow> (Some \<lparr>running = a, originals = h, interval = 0\<rparr>, w'))
      | ConfigureOpenVPN n \<Rightarrow>
          (case configureOpenVPN_start n confirmed w of
             (None, w') \<Rightarrow> (None, w')
           | (Some h, w') \<Rightarrow> (Some \<lparr>running = a, originals = h, interval = 0\<rparr>, w'))
      | StartOpenVPN n \<Rightarrow>
          (case startOpenVPN_start n confirmed w of
             (None, w') \<Rightarrow> (None, w')
           | (Some h, w') \<Rightarrow> (Some \<lparr>running = a, originals = h, interval = 0\<rparr>, w'))
      | ReinstallOpenVPN n \<Rightarrow>
          (case reinstallOpenVPN_start n confirmed confirmText w of
             (None, w') \<Rightarrow> (None, w')
           | (Some (h, t), w') \<Rightarrow> (Some \<lparr>running = a, originals = h, interval = t\<rparr>, w')))"

definition finishAction :: "pending \<Rightarrow> outcome \<Rightarrow> world \<Rightarrow> world" where
  "finishAction p out =
     (case running p of
        InstallOpenVPN n \<Rightarrow> installOpenVPN_finish (originals p) out
      | ConfigureOpenVPN n \<Rightarrow> configureOpenVPN_finish (originals p) out
      | StartOpenVPN n \<Rightarrow> startOpenVPN_finish (originals p) out
      | ReinstallOpenVPN n \<Rightarrow> reinstallOpenVPN_finish (originals p, interval p) out)"

definition click :: "nat \<Rightarrow> action \<Rightarrow> bool \<Rightarrow> jsstring option \<Rightarrow> session \<Rightarrow> session" where
  "click i a confirmed confirmText s =
     (if i < length (buttons (page s)) \<and> onclick (buttons (page s) ! i) = handlerText a
         \<and> \<not> disabled (buttons (page s) ! i)
      then (case startAction a confirmed confirmText (page s) of
              (None, w') \<Rightarrow> s\<lparr>page := w'\<rparr>
            | (Some p, w') \<Rightarrow> s\<lparr>page := w', inflight := inflight s @ [p]\<rparr>)
      else s)"

definition respond :: "nat \<Rightarrow> outcome \<Rightarrow> session \<Rightarrow> session" where
  "respond k out s =
     (if k < length (inflight s)
      then s\<lparr>page := finishAction (inflight s ! k) out (page s),
             inflight := take k (inflight s) @ drop (Suc k) (inflight s)\<rparr>
      else s)"

text \<open>
  What can happen to a session next: a click on button \<open>i\<close>, with the action of its
  handler and the user's answers to its dialogs; the arrival of the outcome of the
  \<open>k\<close>-th action in flight; a firing of interval \<open>t\<close>. A run is any number of these in a
  row.
\<close>

datatype input = Click nat action bool "jsstring option" | Outcome nat outcome | Tick nat

fun step :: "input \<Rightarrow> session \<Rightarrow> session" where
  "step (Click i a confirmed confirmText) s = click i a confirmed confirmText s"
| "step (Outcome k out) s = respond k out s"
| "step (Tick t) s = s\<lparr>page := progressTick t (page s)\<rparr>"

fun run :: "input list \<Rightarrow> session \<Rightarrow> session" where
  "run [] s = s"
| "run (x # xs) s = run xs (step x s)"

definition inflightFor :: "nat \<Rightarrow> session \<Rightarrow> action list" where
  "inflightFor serverId s = filter (\<lambda>a. serverOf a = serverId) (map running (inflight s))"




section \<open>Reconciliation\<close>

text \<open>The report of a reconciliation: the two derived sets and the three counts.\<close>

record reconciliation_report =
  orphaned :: "jsstring fset"
  new :: "jsstring fset"
  count_on_server :: nat
  count_in_db :: nat
  count_removed :: nat


section \<open>Observations\<close>

text \<open>The requests a run has sent, and what it wrote to the console and the status line.\<close>

definition requestsOf :: "world \<Rightarrow> request list" where
  "requestsOf w = concat (map (\<lambda>e. case e of Fetch r \<Rightarrow> [r] | _ \<Rightarrow> []) (trace w))"

definition isLogOrStatus :: "event \<Rightarrow> bool" where
  "isLogOrStatus e =
     (case e of ConsoleLog args \<Rightarrow> True | ConsoleError args \<Rightarrow> True
              | StatusShown m t \<Rightarrow> True | _ \<Rightarrow> False)"

definition logsAndStatus :: "world \<Rightarrow> event list" where
  "logsAndStatus w = filter isLogOrStatus (trace w)"

text \<open>A page for the examples: a status line, no terminal, the create-client modal, and
  one button for each lifecycle action on server 1.\<close>

definition actionButton :: "action \<Rightarrow> button" where
  "actionButton a = \<lparr>onclick = handlerText a, disabled = False, innerHTML = functionName a\<rparr>"

definition examplePage :: world where
  "examplePage =
     \<lparr>cookie = lit ''csrftoken=abc'',
      decodeURIComponent = (\<lambda>s. s),
      lowerTable = (\<lambda>s. s),
      upperTable = (\<lambda>s. s),
      faultMessage = (\<lambda>f. lit ''fault''),
      stackTrace = (\<lambda>e. lit ''stack''),
      oddSelector = (\<lambda>s. None),
      serverIdAttr = Some (lit ''1''),
      statusBox = Some \<lparr>className = [], textContent = [], display = lit ''none''\<rparr>,
      buttons = [actionButton (InstallOpenVPN 1), actionButton (StartOpenVPN 1),
                 actionButton (ConfigureOpenVPN 1), actionButton (ReinstallOpenVPN 1)],
      terminal = None,
      isConnected = False,
      clientNameField = [],
      clientEmailField = [],
      createClientBtn = \<lparr>onclick = lit ''createClient()'', disabled = False, innerHTML = lit ''Create''\<rparr>,
      timers = [],
      trace = []\<rparr>"

definition emptyData :: api_data where
  "emptyData =
     \<lparr>success = None, message = None, error = None, output = None, status = None,
      public_key = None, key_type = None, client_id = None, steps = None,
      service_running = None, clients_on_server = None, clients_in_db = None,
      clients_removed = None, orphaned_clients = None, new_clients = None\<rparr>"

text \<open>An answer whose body is the object \<open>d\<close>, or is not JSON (\<open>None\<close>).\<close>

definition answer :: "nat \<Rightarrow> api_data option \<Rightarrow> outcome" where
  "answer code d =
     Resolved \<lparr>http_status = code, json = map_option JsonObject d,
               content_disposition = None, blob_size = 0\<rparr>"

definition exampleSession :: session where
  "exampleSession = \<lparr>page = examplePage, inflight = []\<rparr>"

text \<open>
  A function on pages only appends to the trace, and does not read it, when running it
  on a page with any trace gives what running it on the page with the empty trace gives,
  with that trace in front.
\<close>

definition appendsOnly :: "(world \<Rightarrow> world) \<Rightarrow> bool" where
  "appendsOnly f =
     (\<forall>w es. f (w\<lparr>trace := es\<rparr>) =
        (f (w\<lparr>trace := []\<rparr>))\<lparr>trace := es @ trace (f (w\<lparr>trace := []\<rparr>))\<rparr>)"

section \<open>Verified properties\<close>

subsection \<open>Which steps send a request, and what they leave alone\<close>

lemma requestsOf_emit [simp]:
  "requestsOf (emit e w) = requestsOf w @ (case e of Fetch r \<Rightarrow> [r] | _ \<Rightarrow> [])"
  by (simp add: requestsOf_def emit_def)

lemma requestsOf_showStatus [simp]: "requestsOf (showStatus m t w) = requestsOf w"
  by (simp add: showStatus_def requestsOf_def emit_def split: option.split)

lemma requestsOf_showAlert [simp]: "requestsOf (showAlert m t w) = requestsOf w"
  by (simp add: showAlert_def)

lemma requestsOf_reloadPage [simp]: "requestsOf (reloadPage d w) = requestsOf w"
  by (simp add: reloadPage_def)

lemma requestsOf_appendToTerminal [simp]: "requestsOf (appendToTerminal t w) = requestsOf w"
  by (simp add: appendToTerminal_def requestsOf_def split: option.split)

lemma requestsOf_restoreAll [simp]: "requestsOf (restoreAll h w) = requestsOf w"
  by (simp add: restoreAll_def requestsOf_def)

lemma requestsOf_loadingAll [simp]: "requestsOf (loadingAll sel m w) = requestsOf w"
  by (simp add: loadingAll_def requestsOf_def)

lemma requestsOf_handleApiError [simp]: "requestsOf (handleApiError e c w) = requestsOf w"
  by (simp add: handleApiError_def)

lemma requestsOf_outputToTerminal [simp]: "requestsOf (outputToTerminal h d f w) = requestsOf w"
  by (simp add: outputToTerminal_def split: option.split)

lemma requestsOf_errorLine [simp]: "requestsOf (errorLine p d w) = requestsOf w"
  by (simp add: errorLine_def split: option.split)

lemma requestsOf_errorToTerminal [simp]: "requestsOf (errorToTerminal h d w) = requestsOf w"
  by (simp add: errorToTerminal_def split: option.split)

lemma requestsOf_stepsToTerminal [simp]: "requestsOf (stepsToTerminal sts w) = requestsOf w"
  unfolding stepsToTerminal_def by (induction sts arbitrary: w) simp_all

lemma requestsOf_clearInterval [simp]: "requestsOf (clearInterval t w) = requestsOf w"
  by (simp add: clearInterval_def requestsOf_def)

lemma requestsOf_setInterval [simp]: "requestsOf (setInterval w) = requestsOf w"
  by (simp add: setInterval_def requestsOf_def)

lemma requestsOf_timers_update [simp]: "requestsOf (w\<lparr>timers := ts\<rparr>) = requestsOf w"
  by (simp add: requestsOf_def)

lemma requestsOf_createClientBtn_update [simp]:
  "requestsOf (w\<lparr>createClientBtn := b\<rparr>) = requestsOf w"
  by (simp add: requestsOf_def)

lemma requestsOf_formReset [simp]: "requestsOf (formReset w) = requestsOf w"
  by (simp add: formReset_def requestsOf_def emit_def)

lemma requestsOf_progressTick [simp]: "requestsOf (progressTick t w) = requestsOf w"
  by (simp add: progressTick_def split: option.split)

lemma requestsOf_progressTicks [simp]: "requestsOf ((progressTick t ^^ n) w) = requestsOf w"
  by (induction n) simp_all

lemma requestsOf_apiRequest_send [simp]:
  "requestsOf (apiRequest_send u options w) =
     requestsOf w @ [\<lparr>url = u, http_method = opt_method options,
                      headers = [(lit ''Content-Type'', Some (lit ''application/json'')),
                                 (lit ''X-CSRFToken'', getCookie w (lit ''csrftoken''))],
                      body = opt_body options\<rparr>]"
  by (simp add: apiRequest_send_def)

lemma requestsOf_reinstallOpenVPN_finish [simp]:
  "requestsOf (reinstallOpenVPN_finish l out w) = requestsOf w"
  by (simp add: reinstallOpenVPN_finish_def reinstallOpenVPN_catch_def
      split: sum.split parsed.split option.split)

lemma requestsOf_createClient_finish [simp]:
  "requestsOf (createClient_finish l out w) = requestsOf w"
  by (simp add: createClient_finish_def split: sum.split parsed.split)

lemma requestsOf_syncClients_finish [simp]: "requestsOf (syncClients_finish out w) = requestsOf w"
  by (simp add: syncClients_finish_def syncClients_catch_def
      split: sum.split parsed.split option.split)

text \<open>The cookie is read from the page and nothing on the way to a request changes it.\<close>

lemma getCookie_cong:
  "cookie w = cookie w' \<Longrightarrow> decodeURIComponent w = decodeURIComponent w' \<Longrightarrow>
   getCookie w n = getCookie w' n"
  by (simp add: getCookie_def split: list.split)

lemma getCookie_emit [simp]: "getCookie (emit e w) n = getCookie w n"
  by (rule getCookie_cong) (simp_all add: emit_def)

lemma getCookie_showStatus [simp]: "getCookie (showStatus m t w) n = getCookie w n"
  by (rule getCookie_cong) (simp_all add: showStatus_def emit_def split: option.split)

lemma getCookie_loadingAll [simp]: "getCookie (loadingAll s m w) n = getCookie w n"
  by (rule getCookie_cong) (simp_all add: loadingAll_def)

lemma getCookie_setInterval [simp]: "getCookie (setInterval w) n = getCookie w n"
  by (rule getCookie_cong) (simp_all add: setInterval_def)

lemma getCookie_createClientBtn_update [simp]:
  "getCookie (w\<lparr>createClientBtn := b\<rparr>) n = getCookie w n"
  by (rule getCookie_cong) simp_all

lemma lowerTable_emit [simp]: "lowerTable (emit e w) = lowerTable w"
  by (simp add: emit_def)

text \<open>What the steps do to the buttons and to the status line.\<close>

lemma buttons_emit [simp]: "buttons (emit e w) = buttons w"
  by (simp add: emit_def)

lemma buttons_showStatus [simp]: "buttons (showStatus m t w) = buttons w"
  by (simp add: showStatus_def emit_def split: option.split)

lemma buttons_apiRequest_send [simp]: "buttons (apiRequest_send u opts w) = buttons w"
  by (simp add: apiRequest_send_def)

lemma buttons_setInterval [simp]: "buttons (setInterval w) = buttons w"
  by (simp add: setInterval_def)

lemma buttons_showAlert [simp]: "buttons (showAlert m t w) = buttons w"
  by (simp add: showAlert_def)

lemma buttons_reloadPage [simp]: "buttons (reloadPage d w) = buttons w"
  by (simp add: reloadPage_def)

lemma buttons_handleApiError [simp]: "buttons (handleApiError e c w) = buttons w"
  by (simp add: handleApiError_def)

lemma buttons_appendToTerminal [simp]: "buttons (appendToTerminal t w) = buttons w"
  by (simp add: appendToTerminal_def split: option.split)

lemma buttons_outputToTerminal [simp]: "buttons (outputToTerminal h d f w) = buttons w"
  by (simp add: outputToTerminal_def split: option.split)

lemma buttons_errorLine [simp]: "buttons (errorLine p d w) = buttons w"
  by (simp add: errorLine_def split: option.split)

lemma buttons_errorToTerminal [simp]: "buttons (errorToTerminal h d w) = buttons w"
  by (simp add: errorToTerminal_def split: option.split)

lemma buttons_stepsToTerminal [simp]: "buttons (stepsToTerminal sts w) = buttons w"
  unfolding stepsToTerminal_def by (induction sts arbitrary: w) simp_all

lemma buttons_clearInterval [simp]: "buttons (clearInterval t w) = buttons w"
  by (simp add: clearInterval_def)

lemma buttons_progressTick [simp]: "buttons (progressTick t w) = buttons w"
  by (simp add: progressTick_def split: option.split)

lemma buttons_reinstallOpenVPN_catch [simp]: "buttons (reinstallOpenVPN_catch e w) = buttons w"
  by (simp add: reinstallOpenVPN_catch_def)

lemma buttons_restoreAll [simp]:
  "buttons (restoreAll h w) =
     fold (\<lambda>(i, h) bs. bs[i := restoreButton (bs ! i) h]) h (buttons w)"
  by (simp add: restoreAll_def)



lemma statusBox_emit [simp]: "statusBox (emit e w) = statusBox w"
  by (simp add: emit_def)

lemma statusBox_showStatus [simp]:
  "statusBox (showStatus m t w) =
     (case statusBox w of
        None \<Rightarrow> None
      | Some b \<Rightarrow> Some \<lparr>className = lit ''alert alert-'' @ t @ lit '' m-3 mb-0'',
                         textContent = m, display = lit ''block''\<rparr>)"
  by (simp add: showStatus_def split: option.split)

lemma statusBox_reloadPage [simp]: "statusBox (reloadPage d w) = statusBox w"
  by (simp add: reloadPage_def)

lemma statusBox_apiRequest_send [simp]: "statusBox (apiRequest_send u opts w) = statusBox w"
  by (simp add: apiRequest_send_def)

subsection \<open>Validation of the client name\<close>

lemma isValidClientName_Nil [simp]: "\<not> isValidClientName []"
  by (simp add: isValidClientName_def)

text \<open>No unit of the name class is white space, so trimming leaves a name that matches
  the pattern as it is.\<close>

lemma nameChar_not_white: "nameChar c \<Longrightarrow> \<not> isWhiteSpace c"
  by (auto simp: nameChar_def isWhiteSpace_def word_le_nat_alt)

lemma dropWhile_id: "xs \<noteq> [] \<Longrightarrow> \<not> P (hd xs) \<Longrightarrow> dropWhile P xs = xs"
  by (cases xs) simp_all

lemma trim_valid_name:
  assumes "isValidClientName name"
  shows "trim name = name"
proof -
  from assms have ne: "name \<noteq> []" and all: "list_all nameChar name"
    by (simp_all add: isValidClientName_def)
  have "hd name \<in> set name" "last name \<in> set name"
    using ne by simp_all
  then have h: "\<not> isWhiteSpace (hd name)" and l: "\<not> isWhiteSpace (last name)"
    using all nameChar_not_white by (auto simp: list_all_iff)
  have 1: "dropWhile isWhiteSpace name = name"
    using ne h by (rule dropWhile_id)
  have "hd (rev name) = last name"
    using ne by (simp add: hd_rev)
  then have 2: "dropWhile isWhiteSpace (rev name) = rev name"
    using ne l by (simp add: dropWhile_id)
  show ?thesis
    by (simp add: trim_def 1 2)
qed

text \<open>
  Claim C1, as the code has it. \<open>createClient\<close> decides on the trimmed value of the name
  field: when the trimmed name matches \<open>^[a-zA-Z0-9_-]+$\<close> and the trimmed email is empty
  or passes the email check, exactly one request is sent, the create-client request
  carrying the trimmed name; in every other case (a trimmed name that is empty or holds
  any other character, or an email that fails the check) a validation alert is shown,
  nothing else happens and no request is sent. A field value that matches the pattern
  as it stands is its own trimmed value.
\<close>

theorem createClient_validates_trimmed_name:
  "requestsOf (createClient out w) =
     requestsOf w @
       (if isValidClientName (trim (clientNameField w))
           \<and> (trim (clientEmailField w) = [] \<or> isValidEmail (trim (clientEmailField w)))
        then [\<lparr>url = lit ''/api/servers/'' @ template (serverIdAttr w) @ lit ''/create-client/'',
                http_method = lit ''POST'',
                headers = [(lit ''Content-Type'', Some (lit ''application/json'')),
                           (lit ''X-CSRFToken'', getCookie w (lit ''csrftoken''))],
                body = Some (requestData (trim (clientNameField w)) (trim (clientEmailField w)))\<rparr>]
        else [])
   \<and> (\<not> (isValidClientName (trim (clientNameField w))
           \<and> (trim (clientEmailField w) = [] \<or> isValidEmail (trim (clientEmailField w))))
        \<longrightarrow> createClient out w =
            showAlert (if trim (clientNameField w) = [] then s_enter_name
                       else if \<not> isValidClientName (trim (clientNameField w)) then s_bad_name
                       else s_bad_email) [] w)
   \<and> (isValidClientName (clientNameField w) \<longrightarrow> trim (clientNameField w) = clientNameField w)"
  (is "?sent \<and> ?refused \<and> ?unchanged")
proof -
  let ?name = "trim (clientNameField w)"
  let ?email = "trim (clientEmailField w)"
  have sent: ?sent
  proof (cases "isValidClientName ?name \<and> (?email = [] \<or> isValidEmail ?email)")
    case True
    then have "?name \<noteq> []"
      by auto
    with True show ?thesis
      by (auto simp: createClient_def createClient_start_def Let_def)
  next
    case False
    then have "fst (createClient_start w) = None" "snd (createClient_start w) =
        showAlert (if ?name = [] then s_enter_name
                   else if \<not> isValidClientName ?name then s_bad_name else s_bad_email) [] w"
      by (auto simp: createClient_start_def Let_def)
    then have "createClient out w =
        showAlert (if ?name = [] then s_enter_name
                   else if \<not> isValidClientName ?name then s_bad_name else s_bad_email) [] w"
      by (cases "createClient_start w") (simp add: createClient_def)
    with False show ?thesis
      by simp
  qed
  have refused: ?refused
    by (auto simp: createClient_def createClient_start_def Let_def)
  have unchanged: ?unchanged
    by (simp add: trim_valid_name)
  from sent refused unchanged show ?thesis
    by (intro conjI)
qed

theorem createClient_validates_trimmed_name_witness:
  "requestsOf (createClient (answer 200 None) (examplePage\<lparr>clientNameField := lit ''bad name''\<rparr>)) = []
   \<and> createClient (answer 200 None) (examplePage\<lparr>clientNameField := lit ''bad name''\<rparr>) =
       showAlert s_bad_name [] (examplePage\<lparr>clientNameField := lit ''bad name''\<rparr>)"
proof -
  have t: "trim (lit ''bad name'') = lit ''bad name''"
    by code_simp
  have v: "\<not> isValidClientName (lit ''bad name'')"
    by code_simp
  have n: "lit ''bad name'' \<noteq> []"
    by (simp add: lit_def)
  have r: "requestsOf (examplePage\<lparr>clientNameField := lit ''bad name''\<rparr>) = []"
    by (simp add: requestsOf_def examplePage_def)
  show ?thesis
    using createClient_validates_trimmed_name
      [of "answer 200 None" "examplePage\<lparr>clientNameField := lit ''bad name''\<rparr>"]
    by (simp add: t v n r)
qed

text \<open>
  The claim as written fails for a name with surrounding white space: the field value
  \<open>alice\<close> followed by a space does not match the pattern, and the request is sent.
\<close>

theorem createClient_padded_name_counterexample:
  "\<not> isValidClientName (lit ''alice '')
   \<and> requestsOf (createClient (answer 200 None) (examplePage\<lparr>clientNameField := lit ''alice ''\<rparr>)) =
       [\<lparr>url = lit ''/api/servers/1/create-client/'', http_method = lit ''POST'',
         headers = [(lit ''Content-Type'', Some (lit ''application/json'')),
                    (lit ''X-CSRFToken'', Some (lit ''abc''))],
         body = Some [(lit ''client_name'', JString (lit ''alice''))]\<rparr>]"
  by code_simp

subsection \<open>The confirmation of a reinstallation\<close>





subsection \<open>Reconciliation and what syncClients sends\<close>







subsection \<open>The status label\<close>

lemma statusText_labels:
  "statusText (Some (lit ''running'')) = VString s_label_running"
  "statusText (Some (lit ''stopped'')) = VString s_label_stopped"
  "statusText (Some (lit ''error'')) = VString s_label_error"
  by (simp_all add: statusText_def getProperty_def statusLabels_def template_def jsvalTruthy_def
      lit_def s_label_running_def s_label_stopped_def s_label_error_def)

text \<open>A literal that is neither one of the three keys nor the name of an inherited
  property is shown as it is.\<close>

lemma statusText_other:
  assumes "s \<notin> fst ` set statusLabels" and "s \<notin> fst ` set objectPrototype"
  shows "statusText (Some s) = VString s"
proof -
  have "map_of statusLabels s = None" "map_of objectPrototype s = None"
    using assms by (simp_all add: map_of_eq_None_iff)
  then show ?thesis
    by (simp add: statusText_def getProperty_def template_def jsvalTruthy_def)
qed

text \<open>
  Claim C4 does not hold of the code for a status literal that names a property every
  object inherits. For the answer \<open>{success: true, status: "constructor"}\<close> the lookup
  \<open>{...}[data.status]\<close> yields the built-in function \<open>Object\<close>, which is truthy, so the
  fallback \<open>|| data.status\<close> is not taken and the status line shows the text of that
  function, not the literal.
\<close>

theorem checkStatus_inherited_property:
  "statusText (Some (lit ''constructor'')) = VFunction (lit ''Object'')
   \<and> statusBox (checkStatus 1
         (answer 200 (Some (emptyData\<lparr>success := Some True, status := Some (lit ''constructor'')\<rparr>)))
         examplePage) =
       Some \<lparr>className = lit ''alert alert-warning m-3 mb-0'',
             textContent = s_server_status @ lit ''function Object() { [native code] }'',
             display = lit ''block''\<rparr>
   \<and> s_server_status @ lit ''function Object() { [native code] }'' \<noteq> s_server_status @ lit ''constructor''"
  by code_simp

subsection \<open>A declined confirmation\<close>

lemma reinstallRefused_emit [simp]: "reinstallRefused (emit e w) t = reinstallRefused w t"
  by (simp add: reinstallRefused_def split: option.split)

text \<open>
  Claim C5. When the confirmation dialog of \<open>installOpenVPN\<close>, \<open>configureOpenVPN\<close> or
  \<open>startOpenVPN\<close> returns false, the page after the call is the page before it: no
  request, no button disabled, no status message. \<open>reinstallOpenVPN\<close> has written one
  console line before its dialog; when the dialog returns false that line is all that
  the call leaves behind. When its second confirmation, the typed text, is refused, the
  call leaves that line and the cancellation notice, and again no request and no change
  to a button.
\<close>

theorem declined_confirmation_changes_nothing:
  "installOpenVPN serverId False out w = w
   \<and> configureOpenVPN serverId False out w = w
   \<and> startOpenVPN serverId False out w = w
   \<and> reinstallOpenVPN serverId False confirmText ticks out w =
       w\<lparr>trace := trace w @ [ConsoleLog [Str (lit ''reinstallOpenVPN function called with serverId:''),
                                           Num serverId]]\<rparr>
   \<and> (reinstallRefused w confirmText \<longrightarrow>
        reinstallOpenVPN serverId True confirmText ticks out w =
          showStatus s_reinstall_cancelled (lit ''warning'')
            (w\<lparr>trace := trace w @ [ConsoleLog [Str (lit ''reinstallOpenVPN function called with serverId:''),
                                                Num serverId]]\<rparr>)
        \<and> requestsOf (reinstallOpenVPN serverId True confirmText ticks out w) = requestsOf w
        \<and> buttons (reinstallOpenVPN serverId True confirmText ticks out w) = buttons w)"
  (is "?install \<and> ?configure \<and> ?start \<and> ?reinstall \<and> ?typed")
proof -
  have ?install
    by (simp add: installOpenVPN_def installOpenVPN_start_def)
  moreover have ?configure
    by (simp add: configureOpenVPN_def configureOpenVPN_start_def)
  moreover have ?start
    by (simp add: startOpenVPN_def startOpenVPN_start_def)
  moreover have ?reinstall
    by (simp add: reinstallOpenVPN_def reinstallOpenVPN_start_def emit_def Let_def)
  moreover have ?typed
  proof
    assume refused: "reinstallRefused w confirmText"
    have run: "reinstallOpenVPN serverId True confirmText ticks out w =
        showStatus s_reinstall_cancelled (lit ''warning'')
          (emit (ConsoleLog [Str (lit ''reinstallOpenVPN function called with serverId:''),
                             Num serverId]) w)"
      using refused by (simp add: reinstallOpenVPN_def reinstallOpenVPN_start_def Let_def)
    show "reinstallOpenVPN serverId True confirmText ticks out w =
          showStatus s_reinstall_cancelled (lit ''warning'')
            (w\<lparr>trace := trace w @ [ConsoleLog [Str (lit ''reinstallOpenVPN function called with serverId:''),
                                                Num serverId]]\<rparr>)
        \<and> requestsOf (reinstallOpenVPN serverId True confirmText ticks out w) = requestsOf w
        \<and> buttons (reinstallOpenVPN serverId True confirmText ticks out w) = buttons w"
      unfolding run by (simp add: emit_def requestsOf_def showStatus_def split: option.split)
  qed
  ultimately show ?thesis
    by (intro conjI)
qed

theorem declined_confirmation_changes_nothing_witness:
  "installOpenVPN 1 False Rejected examplePage = examplePage
   \<and> buttons (reinstallOpenVPN 1 False None 0 Rejected examplePage) = buttons examplePage
   \<and> statusBox (reinstallOpenVPN 1 False None 0 Rejected examplePage) = statusBox examplePage
   \<and> requestsOf (reinstallOpenVPN 1 False None 0 Rejected examplePage) = []
   \<and> requestsOf (reinstallOpenVPN 1 True None 0 Rejected examplePage) = []
   \<and> buttons (reinstallOpenVPN 1 True None 0 Rejected examplePage) = buttons examplePage"
proof -
  have refused: "reinstallRefused examplePage None"
    by (simp add: reinstallRefused_def)
  have r: "requestsOf examplePage = []"
    by (simp add: requestsOf_def examplePage_def)
  have r': "requestsOf (examplePage\<lparr>trace := trace examplePage @ [e]\<rparr>) =
      (case e of Fetch q \<Rightarrow> [q] | _ \<Rightarrow> [])" for e
    by (simp add: requestsOf_def examplePage_def)
  show ?thesis
    using declined_confirmation_changes_nothing [of 1 Rejected examplePage None 0] refused
    by (simp add: r r')
qed

subsection \<open>The password and what generateSSHKey writes\<close>






lemma appendsOnly_emit [simp]: "appendsOnly (emit e)"
  by (simp add: appendsOnly_def emit_def)

lemma appendsOnly_showStatus [simp]: "appendsOnly (showStatus m t)"
  by (simp add: appendsOnly_def showStatus_def emit_def split: option.split)

lemma appendsOnly_restoreAll [simp]: "appendsOnly (restoreAll h)"
  by (simp add: appendsOnly_def restoreAll_def)

lemma appendsOnly_reloadPage [simp]: "appendsOnly (reloadPage d)"
  by (simp add: reloadPage_def)

lemma appendsOnly_generateSSHKey_catch [simp]: "appendsOnly (generateSSHKey_catch e)"
  by (simp add: appendsOnly_def generateSSHKey_catch_def showStatus_def emit_def
      split: option.split)


lemma logsAndStatus_trace_update [simp]:
  "logsAndStatus (w\<lparr>trace := es\<rparr>) = filter isLogOrStatus es"
  by (simp add: logsAndStatus_def)





subsection \<open>The name of a downloaded file\<close>

lemma takeWhile_dot:
  "list_all dotChar name \<Longrightarrow> takeWhile dotChar (name @ [0x22]) = name @ [0x22]"
  by (induction name) (simp_all add: dotChar_def)

text \<open>For every quoted file name without a line break the closing quote is part of what
  the pattern captures; without the header the default name is used.\<close>

lemma downloadFilename_quoted:
  assumes "list_all dotChar name"
  shows "downloadFilename clientName
           (Some (lit ''attachment; filename=\"'' @ name @ [0x22])) = name @ [0x22]"
  using takeWhile_dot [OF assms]
  by (simp add: downloadFilename_def captureAfter_def lit_def)

lemma downloadFilename_default: "downloadFilename clientName None = clientName @ lit ''.ovpn''"
  by (simp add: downloadFilename_def)

text \<open>
  Claim C7 does not hold of the code for a quoted file name. For the header
  \<open>attachment; filename="alice.ovpn"\<close> the greedy group \<open>(.+)\<close> of the pattern
  \<open>/filename="?(.+)"?/\<close> runs to the end of the header and takes the closing quote with
  it: the file is saved under \<open>alice.ovpn"\<close>, not under \<open>alice.ovpn\<close>.
\<close>

theorem downloadClientConfig_keeps_closing_quote:
  "downloadFilename (lit ''alice'') (Some (lit ''attachment; filename=\"alice.ovpn\"'')) =
     lit ''alice.ovpn\"''
   \<and> Download (lit ''alice.ovpn\"'') 10 \<in> set (trace (downloadClientConfig (lit ''alice'')
         (Resolved \<lparr>http_status = 200, json = None,
                    content_disposition = Some (lit ''attachment; filename=\"alice.ovpn\"''),
                    blob_size = 10\<rparr>) examplePage))
   \<and> lit ''alice.ovpn\"'' \<noteq> lit ''alice.ovpn''"
  by code_simp

subsection \<open>Two actions at once\<close>

lemma isPrefix_append [simp]: "isPrefix p (p @ r)"
  by (induction p) simp_all

lemma includesStr_append [simp]: "includesStr p (p @ r)"
proof (cases "p @ r")
  case Nil
  then show ?thesis by simp
next
  case (Cons c cs)
  have "isPrefix p (p @ r)" by simp
  then have "isPrefix p (c # cs)" by (simp only: Cons)
  then have "includesStr p (c # cs)" by simp
  then show ?thesis by (simp only: Cons)
qed


lemma length_loading_fold [simp]:
  "length (fold (\<lambda>i bs. bs[i := snd (showButtonLoading (bs ! i) m)]) sel bs) = length bs"
  by (induction sel arbitrary: bs) simp_all



text \<open>The decimal text of a server id consists of digits, so a function name occurs in the
  handler of a button only where it occurs in the handler's own function name.\<close>

lemma digit_unit:
  assumes "n < 10"
  shows "isDigit (of_nat (48 + n))"
proof -
  have "unat (word_of_nat n :: jschar) = n"
    using assms by (simp add: unat_of_nat)
  then have "unat (48 + word_of_nat n :: jschar) = 48 + n"
    using assms by (simp add: unat_word_ariths)
  then show ?thesis
    using assms by (simp add: isDigit_def word_le_nat_alt)
qed

lemma digits_isDigit: "c \<in> set (digits fuel n) \<Longrightarrow> isDigit c"
proof (induction fuel n rule: digits.induct)
  case (1 n)
  then show ?case by simp
next
  case (2 fuel n)
  then show ?case
    using digit_unit [of n] digit_unit [of "n mod 10"]
    by (auto split: if_splits)
qed

lemma showNat_isDigit: "c \<in> set (showNat n) \<Longrightarrow> isDigit c"
  unfolding showNat_def by (rule digits_isDigit)

lemma includesStr_first: "p \<notin> set s \<Longrightarrow> \<not> includesStr (p # ps) s"
  by (induction s) auto

lemma includesStr_tail [simp]:
  "\<not> isDigit p \<Longrightarrow> p \<noteq> 0x29 \<Longrightarrow> \<not> includesStr (p # ps) (showNat n @ [0x29])"
  by (rule includesStr_first) (auto dest: showNat_isDigit)

lemma isPrefix_tail [simp]:
  "\<not> isDigit p \<Longrightarrow> p \<noteq> 0x29 \<Longrightarrow> \<not> isPrefix (p # ps) (showNat n @ [0x29])"
  using includesStr_tail [of p ps n] by (cases "showNat n @ [0x29]") auto



lemma map_fst_originalsOf [simp]: "map fst (originalsOf sel m w) = sel"
  by (simp add: originalsOf_def comp_def)







text \<open>The \<open>finally\<close> of an action enables every button it selected and leaves the other
  buttons as they are.\<close>

lemma length_restore_fold [simp]:
  "length (fold (\<lambda>(i, h) bs. bs[i := restoreButton (bs ! i) h]) os bs) = length bs"
  by (induction os arbitrary: bs) (simp_all add: case_prod_beta)













text \<open>
  Two runs on the example page. With an installation in flight for server 1 a click on
  the reinstall button of server 1 is rejected: the install action disabled it. With a
  reinstallation and then an installation in flight, the outcome of the installation
  enables the reinstall button again, and the next click on it dispatches a second
  reinstallation of server 1 while the first is in flight.
\<close>

lemma install_blocks_reinstall:
  "inflightFor 1 (run [Click 0 (InstallOpenVPN 1) True None,
                       Click 3 (ReinstallOpenVPN 1) True (Some (lit ''REINSTALL''))] exampleSession)
     = [InstallOpenVPN 1]
   \<and> map url (requestsOf (page (run [Click 0 (InstallOpenVPN 1) True None,
                       Click 3 (ReinstallOpenVPN 1) True (Some (lit ''REINSTALL''))] exampleSession)))
     = [lit ''/api/servers/1/install-openvpn/'']"
  by code_simp

lemma reinstall_twice_in_flight:
  "inflightFor 1 (run [Click 3 (ReinstallOpenVPN 1) True (Some (lit ''REINSTALL'')),
                       Click 0 (InstallOpenVPN 1) True None,
                       Outcome 1 Rejected,
                       Click 3 (ReinstallOpenVPN 1) True (Some (lit ''REINSTALL''))] exampleSession)
     = [ReinstallOpenVPN 1, ReinstallOpenVPN 1]
   \<and> map url (requestsOf (page (run [Click 3 (ReinstallOpenVPN 1) True (Some (lit ''REINSTALL'')),
                       Click 0 (InstallOpenVPN 1) True None,
                       Outcome 1 Rejected,
                       Click 3 (ReinstallOpenVPN 1) True (Some (lit ''REINSTALL''))] exampleSession)))
     = [lit ''/api/servers/1/reinstall-openvpn/'', lit ''/api/servers/1/install-openvpn/'',
        lit ''/api/servers/1/reinstall-openvpn/'']"
  by code_simp


subsection \<open>Escaping of terminal output\<close>

lemma replaceEach_append: "replaceEach f (xs @ ys) = replaceEach f xs @ replaceEach f ys"
  by (induction xs) simp_all

lemma escapeHtml_Nil: "escapeHtml [] = []"
  by (simp add: escapeHtml_def)

lemma escapeHtml_Cons:
  "escapeHtml (c # cs) =
     (if c = 0x26 then lit ''&amp;'' else if c = 0x3C then lit ''&lt;''
      else if c = 0x3E then lit ''&gt;'' else if c = 0x22 then lit ''&quot;''
      else if c = 0x27 then lit ''&#039;'' else [c]) @ escapeHtml cs"
  by (simp add: escapeHtml_def escape_class_def escape_map_def)

lemma terminalHtml_Nil: "terminalHtml [] = []"
  by (simp add: terminalHtml_def escapeHtml_def)

text \<open>The two later replacements do not touch what \<open>escapeHtml\<close> wrote: no entity holds a
  line feed or a space, and \<open><br>\<close> holds no space.\<close>

lemma terminalHtml_Cons: "terminalHtml (c # cs) = terminalUnit c @ terminalHtml cs"
  by (simp add: terminalHtml_def escapeHtml_Cons replaceEach_append terminalUnit_def lit_def)

lemma terminalHtml_concat: "terminalHtml s = concat (map terminalUnit s)"
  by (induction s) (simp_all add: terminalHtml_Nil terminalHtml_Cons)

lemma terminalUnit_markup: "c \<in> {0x26, 0x3C, 0x3E, 0x22, 0x27} \<Longrightarrow> terminalUnit c \<noteq> [c]"
  by (auto simp: terminalUnit_def lit_def)

text \<open>
  Claim C9. For every input, \<open>escapeHtml\<close> replaces each occurrence of \<open>&\<close>, \<open><\<close>, \<open>>\<close>,
  the double quote and the apostrophe by its entity and copies every other unit. The
  markup that \<open>appendToTerminal\<close> adds to the terminal is, unit by unit of the text, the
  entity of a markup character, \<open><br>\<close> for a line feed, \<open>&nbsp;\<close> for a space, and the unit
  itself otherwise: no markup character of the text reaches the terminal unescaped.
\<close>

theorem appendToTerminal_escapes_markup:
  "escapeHtml text' =
     concat (map (\<lambda>c. if c = 0x26 then lit ''&amp;'' else if c = 0x3C then lit ''&lt;''
                       else if c = 0x3E then lit ''&gt;'' else if c = 0x22 then lit ''&quot;''
                       else if c = 0x27 then lit ''&#039;'' else [c]) text')
   \<and> terminal (appendToTerminal text' w) =
       map_option (\<lambda>divs. divs @
          [concat (map (\<lambda>c. if c = 0x26 then lit ''&amp;'' else if c = 0x3C then lit ''&lt;''
                       else if c = 0x3E then lit ''&gt;'' else if c = 0x22 then lit ''&quot;''
                       else if c = 0x27 then lit ''&#039;'' else if c = 0x0A then lit ''<br>''
                       else if c = 0x20 then lit ''&nbsp;'' else [c]) text')]) (terminal w)"
proof
  show "escapeHtml text' =
     concat (map (\<lambda>c. if c = 0x26 then lit ''&amp;'' else if c = 0x3C then lit ''&lt;''
                       else if c = 0x3E then lit ''&gt;'' else if c = 0x22 then lit ''&quot;''
                       else if c = 0x27 then lit ''&#039;'' else [c]) text')"
    by (induction text') (simp_all add: escapeHtml_Nil escapeHtml_Cons)
next
  have "terminalHtml text' = concat (map terminalUnit text')"
    by (rule terminalHtml_concat)
  then show "terminal (appendToTerminal text' w) =
       map_option (\<lambda>divs. divs @
          [concat (map (\<lambda>c. if c = 0x26 then lit ''&amp;'' else if c = 0x3C then lit ''&lt;''
                       else if c = 0x3E then lit ''&gt;'' else if c = 0x22 then lit ''&quot;''
                       else if c = 0x27 then lit ''&#039;'' else if c = 0x0A then lit ''<br>''
                       else if c = 0x20 then lit ''&nbsp;'' else [c]) text')]) (terminal w)"
    by (simp add: appendToTerminal_def terminalUnit_def [abs_def] split: option.split)
qed

theorem appendToTerminal_escapes_markup_witness:
  "escapeHtml (lit ''<a href=\"x\">'') = lit ''&lt;a href=&quot;x&quot;&gt;''"
  using appendToTerminal_escapes_markup [of "lit ''<a href=\"x\">''"]
  by (simp add: lit_def)

subsection \<open>What apiRequest returns and throws\<close>

text \<open>
  Claim C10, as the code has it, for a body that is not JSON, is the JSON text \<open>null\<close>,
  or is a JSON object. Given a response, \<open>apiRequest\<close> throws if and only if the response
  is not ok or its body is not JSON. For a response that is not ok: when the body is an
  object with a non-empty \<open>error\<close> field it throws an \<open>Error\<close> whose message is that
  field; when the body is \<open>null\<close> the read of \<open>data.error\<close> throws a \<open>TypeError\<close>, and no
  \<open>Error\<close> with either message is made; in every other case (the body is not JSON, or
  is an object whose \<open>error\<close> field is absent or empty) it throws an \<open>Error\<close> whose
  message is \<open>HTTP error! status: \<close> followed by the status code. For a response that is
  ok it returns what the body parses to, unchanged (\<open>null\<close> included), when the body is
  JSON, and otherwise the rejection of \<open>response.json()\<close> goes to the caller. When no
  response arrives, the rejection of \<open>fetch\<close> does.
\<close>

theorem apiRequest_outcome:
  "fst (apiRequest u options (Resolved r) w) =
     (if \<not> ok r then
        (case json r of
           None \<Rightarrow> Inl (Error (lit ''HTTP error! status: '' @ showNat (http_status r)))
         | Some JsonNull \<Rightarrow> Inl (Fault (NullProperty (lit ''error'')))
         | Some (JsonObject d) \<Rightarrow>
             Inl (Error (case error d of
                           None \<Rightarrow> lit ''HTTP error! status: '' @ showNat (http_status r)
                         | Some m \<Rightarrow>
                             if m \<noteq> [] then m
                             else lit ''HTTP error! status: '' @ showNat (http_status r))))
      else (case json r of None \<Rightarrow> Inl (Fault JsonSyntax) | Some v \<Rightarrow> Inr v))
   \<and> (isl (fst (apiRequest u options (Resolved r) w)) \<longleftrightarrow> \<not> ok r \<or> json r = None)
   \<and> fst (apiRequest u options Rejected w) = Inl (Fault FetchFailed)"
  (is "?value \<and> ?throws \<and> ?rejected")
proof -
  have res: "fst (apiRequest u options out w) = apiRequest_result out" for out
    by (simp add: apiRequest_def)
  have "?value"
  proof (cases "ok r")
    case True
    then show ?thesis
      by (simp add: res apiRequest_result_def)
  next
    case False
    then show ?thesis
      by (simp add: res apiRequest_result_def orElse_def split: option.split parsed.split)
  qed
  moreover have "?throws"
    by (simp add: res apiRequest_result_def split: option.split parsed.split)
  moreover have "?rejected"
    by (simp add: res apiRequest_result_def)
  ultimately show ?thesis
    by (intro conjI)
qed

theorem apiRequest_outcome_witness:
  "fst (apiRequest (lit ''/x'') post
          (answer 404 (Some (emptyData\<lparr>error := Some (lit ''no such server'')\<rparr>))) examplePage)
     = Inl (Error (lit ''no such server''))
   \<and> fst (apiRequest (lit ''/x'') post (answer 500 None) examplePage)
     = Inl (Error (lit ''HTTP error! status: 500''))
   \<and> fst (apiRequest (lit ''/x'') post (answer 502 (Some emptyData)) examplePage)
     = Inl (Error (lit ''HTTP error! status: 502''))
   \<and> fst (apiRequest (lit ''/x'') post
            (Resolved \<lparr>http_status = 500, json = Some JsonNull, content_disposition = None,
                       blob_size = 0\<rparr>) examplePage)
     = Inl (Fault (NullProperty (lit ''error'')))
   \<and> fst (apiRequest (lit ''/x'') post (answer 200 (Some emptyData)) examplePage)
     = Inr (JsonObject emptyData)
   \<and> fst (apiRequest (lit ''/x'') post
            (Resolved \<lparr>http_status = 200, json = Some JsonNull, content_disposition = None,
                       blob_size = 0\<rparr>) examplePage)
     = Inr JsonNull"
proof -
  have n: "lit ''no such server'' \<noteq> []"
    by (simp add: lit_def)
  have m: "lit ''HTTP error! status: '' @ showNat 500 = lit ''HTTP error! status: 500''"
    by code_simp
  have m': "lit ''HTTP error! status: '' @ showNat 502 = lit ''HTTP error! status: 502''"
    by code_simp
  have e: "error emptyData = None"
    by (simp add: emptyData_def)
  show ?thesis
    using apiRequest_outcome [of "lit ''/x''" post
        "\<lparr>http_status = 404,
          json = Some (JsonObject (emptyData\<lparr>error := Some (lit ''no such server'')\<rparr>)),
          content_disposition = None, blob_size = 0\<rparr>" examplePage]
      apiRequest_outcome [of "lit ''/x''" post
        "\<lparr>http_status = 500, json = None, content_disposition = None, blob_size = 0\<rparr>" examplePage]
      apiRequest_outcome [of "lit ''/x''" post
        "\<lparr>http_status = 502, json = Some (JsonObject emptyData), content_disposition = None,
          blob_size = 0\<rparr>" examplePage]
      apiRequest_outcome [of "lit ''/x''" post
        "\<lparr>http_status = 500, json = Some JsonNull, content_disposition = None, blob_size = 0\<rparr>"
        examplePage]
      apiRequest_outcome [of "lit ''/x''" post
        "\<lparr>http_status = 200, json = Some (JsonObject emptyData), content_disposition = None,
          blob_size = 0\<rparr>" examplePage]
      apiRequest_outcome [of "lit ''/x''" post
        "\<lparr>http_status = 200, json = Some JsonNull, content_disposition = None, blob_size = 0\<rparr>"
        examplePage]
    by (simp add: answer_def ok_def n m m' e)
qed

text \<open>
  The claim as written fails for a response that is ok and whose body is not JSON:
  \<open>apiRequest\<close> throws although the response is ok, and returns no parsed body.
\<close>

theorem apiRequest_ok_not_json_counterexample:
  "ok \<lparr>http_status = 200, json = None, content_disposition = None, blob_size = 0\<rparr>
   \<and> fst (apiRequest (lit ''/api/servers/1/check-status/'') post
            (Resolved \<lparr>http_status = 200, json = None, content_disposition = None, blob_size = 0\<rparr>)
            examplePage) = Inl (Fault JsonSyntax)"
  by code_simp

end
